theory Spec2Isabelle
  imports Complex_Main "HOL-Library.Word"
begin

unbundle bit_operations_syntax

section \<open>Python values used by the gripper code\<close>

text \<open>
  Python integers are unbounded and are modelled as \<open>int\<close>.  Python floats (times,
  the easing curve, the detection thresholds, the noise factor) are modelled as exact
  rationals: every float is a rational, and the model leaves out only the rounding of the
  individual float operations.  The rounding shows where \<open>int(...)\<close> truncates a
  product whose exact value is an integer or within one rounding step of one: as floats
  \<open>1000 * 1.005\<close> is just below 1005 and truncates to 1004, where the exact product
  truncates to 1005.  So \<open>add_noise\<close> and \<open>interpolate\<close> below can differ by one from
  the code at such inputs; they agree with it where the float operations are exact, as
  for the dyadic times and factors of the concrete runs in this theory, and no theorem
  below rests on their value anywhere else.  Exceptions are values of \<open>exn\<close>.
\<close>

datatype exn = RuntimeError | ValueError | IndexError | ZeroDivisionError | OtherError

definition py_index :: "nat \<Rightarrow> int \<Rightarrow> nat option" where
  \<comment> \<open>the position an index denotes in a sequence of \<open>len\<close> items: a negative index counts
      from the end, an index outside \<open>-len .. len - 1\<close> denotes none\<close>
  "py_index len i =
     (if 0 \<le> i \<and> i < int len then Some (nat i)
      else if i < 0 \<and> - int len \<le> i then Some (nat (int len + i))
      else None)"

definition py_get :: "'a list \<Rightarrow> int \<Rightarrow> exn + 'a" where
  \<comment> \<open>\<open>xs[i]\<close>, IndexError out of range\<close>
  "py_get xs i = (case py_index (length xs) i of None \<Rightarrow> Inl IndexError | Some k \<Rightarrow> Inr (xs ! k))"

definition py_set :: "'a list \<Rightarrow> int \<Rightarrow> 'a \<Rightarrow> exn + 'a list" where
  \<comment> \<open>\<open>xs[i] = v\<close>, IndexError out of range\<close>
  "py_set xs i v =
     (case py_index (length xs) i of None \<Rightarrow> Inl IndexError | Some k \<Rightarrow> Inr (xs[k := v]))"

definition py_int :: "rat \<Rightarrow> int" where
  \<comment> \<open>\<open>int(x)\<close> of a float: truncation towards zero\<close>
  "py_int x = (if 0 \<le> x then \<lfloor>x\<rfloor> else \<lceil>x\<rceil>)"

definition py_round :: "rat \<Rightarrow> int" where
  \<comment> \<open>\<open>round(x)\<close> of a float: to the nearest integer, a tie to the even one\<close>
  "py_round x =
     (let f = \<lfloor>x\<rfloor>; r = x - of_int f
      in if r < 1 / 2 then f else if 1 / 2 < r then f + 1
         else if even f then f else f + 1)"

section \<open>status.py\<close>

record ThreeFG15Status =
  busy :: bool
  grip_detected :: bool
  force_grip_detected :: bool
  calibration_ok :: bool

definition bit_char :: "nat \<Rightarrow> char" where
  "bit_char k = (if k = 0 then CHR ''0'' else CHR ''1'')"

fun bin_digits :: "nat \<Rightarrow> string" where
  \<comment> \<open>the binary numeral of a natural number, most significant digit first\<close>
  "bin_digits n =
     (if n < 2 then [bit_char n] else bin_digits (n div 2) @ [bit_char (n mod 2)])"

declare bin_digits.simps [simp del]

definition pad_zeros :: "nat \<Rightarrow> string \<Rightarrow> string" where
  "pad_zeros w s = replicate (w - length s) CHR ''0'' @ s"

definition format_016b :: "int \<Rightarrow> string" where
  \<comment> \<open>\<open>format(v, '016b')\<close>: width 16, zero padded behind the sign\<close>
  "format_016b v =
     (if v < 0 then CHR ''-'' # pad_zeros 15 (bin_digits (nat (- v)))
      else pad_zeros 16 (bin_digits (nat v)))"

definition int_of_char :: "char \<Rightarrow> exn + int" where
  \<comment> \<open>\<open>int(c)\<close> of a one-character string\<close>
  "int_of_char c =
     (if c = CHR ''0'' then Inr 0 else if c = CHR ''1'' then Inr 1 else Inl ValueError)"

definition bool_digit :: "string \<Rightarrow> int \<Rightarrow> exn + bool" where
  \<comment> \<open>\<open>bool(int(status[i]))\<close>\<close>
  "bool_digit status i =
     (case py_get status i of
        Inl e \<Rightarrow> Inl e
      | Inr c \<Rightarrow> (case int_of_char c of Inl e \<Rightarrow> Inl e | Inr d \<Rightarrow> Inr (d \<noteq> 0)))"

definition from_register :: "int \<Rightarrow> exn + ThreeFG15Status" where
  "from_register reg_value =
     (let status = format_016b reg_value in
      case bool_digit status (- 1) of Inl e \<Rightarrow> Inl e | Inr b \<Rightarrow>
      case bool_digit status (- 2) of Inl e \<Rightarrow> Inl e | Inr gd \<Rightarrow>
      case bool_digit status (- 3) of Inl e \<Rightarrow> Inl e | Inr fg \<Rightarrow>
      case bool_digit status (- 4) of Inl e \<Rightarrow> Inl e | Inr c \<Rightarrow>
        Inr \<lparr>busy = b, grip_detected = gd, force_grip_detected = fg, calibration_ok = c\<rparr>)"

section \<open>GripperBase.py\<close>

datatype GripType = EXTERNAL | INTERNAL

definition GripType_value :: "GripType \<Rightarrow> int" where
  "GripType_value gt = (case gt of EXTERNAL \<Rightarrow> 0 | INTERNAL \<Rightarrow> 1)"

definition GripType_of :: "int \<Rightarrow> exn + GripType" where
  \<comment> \<open>the enum call \<open>GripType(value)\<close>: ValueError for a value that is no member\<close>
  "GripType_of v = (if v = 0 then Inr EXTERNAL else if v = 1 then Inr INTERNAL else Inl ValueError)"

text \<open>The register map and the control values.\<close>

abbreviation (input) REG_TARGET_FORCE :: int where "REG_TARGET_FORCE \<equiv> 0"
abbreviation (input) REG_TARGET_DIAMETER :: int where "REG_TARGET_DIAMETER \<equiv> 1"
abbreviation (input) REG_GRIP_TYPE :: int where "REG_GRIP_TYPE \<equiv> 2"
abbreviation (input) REG_CONTROL :: int where "REG_CONTROL \<equiv> 3"
abbreviation (input) REG_STATUS :: int where "REG_STATUS \<equiv> 256"
abbreviation (input) REG_RAW_DIAMETER :: int where "REG_RAW_DIAMETER \<equiv> 257"
abbreviation (input) REG_DIAMETER_OFFSET :: int where "REG_DIAMETER_OFFSET \<equiv> 258"
abbreviation (input) REG_FORCE_APPLIED :: int where "REG_FORCE_APPLIED \<equiv> 259"
abbreviation (input) REG_FINGER_LENGTH :: int where "REG_FINGER_LENGTH \<equiv> 270"
abbreviation (input) REG_FINGER_POSITION :: int where "REG_FINGER_POSITION \<equiv> 272"
abbreviation (input) REG_FINGERTIP_OFFSET :: int where "REG_FINGERTIP_OFFSET \<equiv> 273"
abbreviation (input) REG_MIN_DIAMETER :: int where "REG_MIN_DIAMETER \<equiv> 513"
abbreviation (input) REG_MAX_DIAMETER :: int where "REG_MAX_DIAMETER \<equiv> 514"

abbreviation (input) CMD_GRIP :: int where "CMD_GRIP \<equiv> 1"
abbreviation (input) CMD_MOVE :: int where "CMD_MOVE \<equiv> 2"
abbreviation (input) CMD_STOP :: int where "CMD_STOP \<equiv> 4"
abbreviation (input) CMD_FLEXIBLE_GRIP :: int where "CMD_FLEXIBLE_GRIP \<equiv> 5"

text \<open>
  The abstract methods of \<open>GripperBase\<close>: an implementation supplies the connection
  call and the two register primitives over its own state \<open>'g\<close>.  A call returns the state it leaves behind together
  with its result; a raised exception is the \<open>Inl\<close> (for a read) or \<open>Some\<close> (for a
  write) result.
\<close>

record 'g gripper =
  open_connection :: "'g \<Rightarrow> (exn + bool) \<times> 'g"
  read_registers :: "int \<Rightarrow> nat \<Rightarrow> 'g \<Rightarrow> (exn + int list) \<times> 'g"
  write_register :: "int \<Rightarrow> int \<Rightarrow> 'g \<Rightarrow> exn option \<times> 'g"

definition and_then ::
  "('g \<Rightarrow> exn option \<times> 'g) \<Rightarrow> ('g \<Rightarrow> exn option \<times> 'g) \<Rightarrow> 'g \<Rightarrow> exn option \<times> 'g" where
  \<comment> \<open>two statements in sequence: an exception of the first skips the second\<close>
  "and_then f k g = (case f g of (None, g') \<Rightarrow> k g' | (Some e, g') \<Rightarrow> (Some e, g'))"

definition except_RuntimeError :: "exn option \<times> 'g \<Rightarrow> exn option \<times> 'g" where
  \<comment> \<open>\<open>except RuntimeError as e: print(...)\<close>: any other exception propagates\<close>
  "except_RuntimeError r = (case r of (Some RuntimeError, g) \<Rightarrow> (None, g) | _ \<Rightarrow> r)"

definition set_target_force :: "'g gripper \<Rightarrow> int \<Rightarrow> 'g \<Rightarrow> exn option \<times> 'g" where
  "set_target_force G force_val = write_register G REG_TARGET_FORCE force_val"

definition set_target_diameter :: "'g gripper \<Rightarrow> int \<Rightarrow> 'g \<Rightarrow> exn option \<times> 'g" where
  "set_target_diameter G diameter = write_register G REG_TARGET_DIAMETER diameter"

definition set_grip_type :: "'g gripper \<Rightarrow> GripType \<Rightarrow> 'g \<Rightarrow> exn option \<times> 'g" where
  "set_grip_type G grip_type = write_register G REG_GRIP_TYPE (GripType_value grip_type)"

definition set_control :: "'g gripper \<Rightarrow> int \<Rightarrow> 'g \<Rightarrow> exn option \<times> 'g" where
  "set_control G cmd = write_register G REG_CONTROL cmd"

definition get_status :: "'g gripper \<Rightarrow> 'g \<Rightarrow> (exn + ThreeFG15Status option) \<times> 'g" where
  "get_status G g =
     (case read_registers G REG_STATUS 1 g of
        (Inl RuntimeError, g') \<Rightarrow> (Inr None, g')
      | (Inl e, g') \<Rightarrow> (Inl e, g')
      | (Inr [], g') \<Rightarrow> (Inr None, g')
      | (Inr (r # _), g') \<Rightarrow>
          (case from_register r of Inl e \<Rightarrow> (Inl e, g') | Inr st \<Rightarrow> (Inr (Some st), g')))"

definition get_raw_diameter :: "'g gripper \<Rightarrow> 'g \<Rightarrow> (exn + rat option) \<times> 'g" where
  "get_raw_diameter G g =
     (case read_registers G REG_RAW_DIAMETER 1 g of
        (Inl RuntimeError, g') \<Rightarrow> (Inr None, g')
      | (Inl e, g') \<Rightarrow> (Inl e, g')
      | (Inr [], g') \<Rightarrow> (Inr None, g')
      | (Inr (r # _), g') \<Rightarrow> (Inr (Some (of_int r / 10)), g'))"

definition open_gripper :: "'g gripper \<Rightarrow> int \<Rightarrow> 'g \<Rightarrow> exn option \<times> 'g" where
  "open_gripper G force_val g =
     (case read_registers G REG_MAX_DIAMETER 1 g of
        (Inl e, g') \<Rightarrow> except_RuntimeError (Some e, g')
      | (Inr [], g') \<Rightarrow> except_RuntimeError (Some RuntimeError, g')
      | (Inr (max_d # _), g') \<Rightarrow>
          except_RuntimeError
            (and_then (set_target_force G force_val)
              (and_then (set_target_diameter G max_d)
                (and_then (set_grip_type G EXTERNAL)
                  (set_control G CMD_GRIP))) g'))"

definition close_gripper :: "'g gripper \<Rightarrow> int \<Rightarrow> 'g \<Rightarrow> exn option \<times> 'g" where
  "close_gripper G force_val g =
     (case read_registers G REG_MIN_DIAMETER 1 g of
        (Inl e, g') \<Rightarrow> except_RuntimeError (Some e, g')
      | (Inr [], g') \<Rightarrow> except_RuntimeError (Some RuntimeError, g')
      | (Inr (min_d # _), g') \<Rightarrow>
          except_RuntimeError
            (and_then (set_target_force G force_val)
              (and_then (set_target_diameter G min_d)
                (and_then (set_grip_type G EXTERNAL)
                  (set_control G CMD_GRIP))) g'))"

definition move_gripper :: "'g gripper \<Rightarrow> int \<Rightarrow> int \<Rightarrow> GripType \<Rightarrow> 'g \<Rightarrow> exn option \<times> 'g" where
  "move_gripper G diameter force_val grip_type =
     and_then (set_target_force G force_val)
       (and_then (set_target_diameter G diameter)
         (and_then (set_grip_type G grip_type)
           (set_control G CMD_GRIP)))"

definition flex_grip :: "'g gripper \<Rightarrow> int \<Rightarrow> int \<Rightarrow> GripType \<Rightarrow> 'g \<Rightarrow> exn option \<times> 'g" where
  "flex_grip G diameter force_val grip_type =
     and_then (set_target_force G force_val)
       (and_then (set_target_diameter G diameter)
         (and_then (set_grip_type G grip_type)
           (set_control G CMD_FLEXIBLE_GRIP)))"

section \<open>ThreeFG15Simulator.py\<close>

text \<open>
  The simulator reads the wall clock (\<open>time.time()\<close>) and the random number generator
  (\<open>random.uniform\<close>).  Both are inputs of the model: the \<open>world\<close> holds the values the
  successive calls return and counts the calls made so far.
\<close>

record world =
  clock :: "nat \<Rightarrow> rat"
  clock_reads :: nat
  rng :: "nat \<Rightarrow> rat"
  rng_reads :: nat

definition time_time :: "world \<Rightarrow> rat \<times> world" where
  "time_time w = (clock w (clock_reads w), w\<lparr>clock_reads := Suc (clock_reads w)\<rparr>)"

definition random_uniform :: "rat \<Rightarrow> rat \<Rightarrow> world \<Rightarrow> rat \<times> world" where
  \<comment> \<open>\<open>random.uniform(a, b)\<close> is \<open>a + (b - a) * random()\<close>, with \<open>random()\<close> in [0, 1)\<close>
  "random_uniform a b w =
     (a + (b - a) * rng w (rng_reads w), w\<lparr>rng_reads := Suc (rng_reads w)\<rparr>)"

record sim =
  registers :: "int \<rightharpoonup> int"
  min_diameter :: int
  max_diameter :: int
  finger_length :: int
  simulation_speed :: rat
  enable_noise :: bool
  current_diameter :: int
  target_diameter :: int
  current_force :: int
  target_force :: int
  grip_type :: GripType
  is_busy :: bool
  sim_grip_detected :: bool
  sim_force_grip_detected :: bool
  sim_calibration_ok :: bool
  movement_start_time :: "rat option"
  movement_duration :: rat

definition calculate_status_register :: "sim \<Rightarrow> int" where
  "calculate_status_register s =
     (let status = 0;
          status = (if is_busy s then status OR 1 else status);
          status = (if sim_grip_detected s then status OR 2 else status);
          status = (if sim_force_grip_detected s then status OR 4 else status);
          status = (if sim_calibration_ok s then status OR 8 else status)
      in status)"

definition initialize_registers :: "sim \<Rightarrow> sim" where
  "initialize_registers s = s\<lparr>registers :=
     [REG_TARGET_FORCE \<mapsto> 500,
      REG_TARGET_DIAMETER \<mapsto> max_diameter s,
      REG_GRIP_TYPE \<mapsto> 0,
      REG_CONTROL \<mapsto> 0,
      REG_STATUS \<mapsto> calculate_status_register s,
      REG_RAW_DIAMETER \<mapsto> current_diameter s,
      REG_DIAMETER_OFFSET \<mapsto> current_diameter s,
      REG_FORCE_APPLIED \<mapsto> 0,
      REG_FINGER_LENGTH \<mapsto> finger_length s,
      REG_FINGER_POSITION \<mapsto> 1,
      REG_FINGERTIP_OFFSET \<mapsto> 0,
      REG_MIN_DIAMETER \<mapsto> min_diameter s,
      REG_MAX_DIAMETER \<mapsto> max_diameter s]\<rparr>"

definition ThreeFG15Simulator :: "int \<Rightarrow> int \<Rightarrow> int \<Rightarrow> rat \<Rightarrow> bool \<Rightarrow> sim" where
  \<comment> \<open>the constructor; the defaults of the source are 0, 1000, 500, 1.0 and True\<close>
  "ThreeFG15Simulator min_d max_d finger_len speed noise =
     initialize_registers
       \<lparr>registers = Map.empty,
        min_diameter = min_d,
        max_diameter = max_d,
        finger_length = finger_len,
        simulation_speed = speed,
        enable_noise = noise,
        current_diameter = max_d,
        target_diameter = max_d,
        current_force = 0,
        target_force = 500,
        grip_type = EXTERNAL,
        is_busy = False,
        sim_grip_detected = False,
        sim_force_grip_detected = False,
        sim_calibration_ok = True,
        movement_start_time = None,
        movement_duration = 1 / 2\<rparr>"

definition add_noise :: "sim \<Rightarrow> int \<Rightarrow> rat \<Rightarrow> world \<Rightarrow> int \<times> world" where
  \<comment> \<open>the product under \<open>py_int\<close> is exact here and a rounded float in the code\<close>
  "add_noise s v noise_percent w =
     (if \<not> enable_noise s then (v, w)
      else let (noise, w') = random_uniform (- noise_percent / 100) (noise_percent / 100) w
           in (max 0 (py_int (of_int v * (1 + noise))), w'))"

definition update_grip_detection :: "sim \<Rightarrow> sim" where
  "update_grip_detection s =
     (if of_int (current_diameter s) < (of_int (max_diameter s) * (9 / 10) :: rat) then
        (let s = s\<lparr>sim_grip_detected := True\<rparr> in
         if of_int (current_force s) > (of_int (target_force s) * (8 / 10) :: rat)
         then s\<lparr>sim_force_grip_detected := True\<rparr>
         else s\<lparr>sim_force_grip_detected := False\<rparr>)
      else s\<lparr>sim_grip_detected := False, sim_force_grip_detected := False\<rparr>)"

definition ease_in_out :: "rat \<Rightarrow> rat" where
  \<comment> \<open>the two branches computing \<open>t\<close> in \<open>_update_movement\<close>\<close>
  "ease_in_out progress =
     (if progress < 1 / 2 then 2 * progress * progress
      else 1 - 2 * (1 - progress) * (1 - progress))"

definition interpolate :: "sim \<Rightarrow> rat \<Rightarrow> sim" where
  \<comment> \<open>\<open>_update_movement\<close>, from the easing curve to "Update force based on movement";
      the products under \<open>py_int\<close> are exact here and rounded floats in the code\<close>
  "interpolate s progress =
     (let t = ease_in_out progress;
          start_diameter =
            (case registers s REG_RAW_DIAMETER of
               Some r \<Rightarrow> r | None \<Rightarrow> current_diameter s);
          diameter_diff = target_diameter s - start_diameter;
          s = s\<lparr>current_diameter := start_diameter + py_int (of_int diameter_diff * t)\<rparr>
      in if \<bar>diameter_diff\<bar> > 0
         then s\<lparr>current_force := py_int (of_int (target_force s) * min 1 (progress * 2))\<rparr>
         else s\<lparr>current_force := target_force s\<rparr>)"

definition complete_movement :: "sim \<Rightarrow> sim" where
  \<comment> \<open>\<open>_update_movement\<close>, the body of "Check if movement is complete"\<close>
  "complete_movement s =
     update_grip_detection
       (s\<lparr>is_busy := False,
          movement_start_time := None,
          current_diameter := target_diameter s,
          current_force := target_force s\<rparr>)"

definition publish_registers :: "sim \<times> world \<Rightarrow> sim \<times> world" where
  \<comment> \<open>\<open>_update_movement\<close>, the block "Update registers"\<close>
  "publish_registers sw =
     (let (s, w) = sw;
          (raw, w) = add_noise s (current_diameter s) 2 w;
          (off, w) = add_noise s (current_diameter s) 2 w;
          (frc, w) = add_noise s (current_force s) 2 w
      in (s\<lparr>registers := (registers s)
             (REG_RAW_DIAMETER \<mapsto> raw,
              REG_DIAMETER_OFFSET \<mapsto> off,
              REG_FORCE_APPLIED \<mapsto> frc,
              REG_STATUS \<mapsto> calculate_status_register s)\<rparr>, w))"

definition update_movement :: "sim \<times> world \<Rightarrow> exn option \<times> sim \<times> world" where
  "update_movement sw =
     (let (s, w) = sw in
      if \<not> is_busy s \<or> movement_start_time s = None then (None, s, w)
      else
        let (now, w) = time_time w;
            elapsed = now - the (movement_start_time s)
        in if movement_duration s = 0 then (Some ZeroDivisionError, s, w)
        else
          let progress = min 1 (elapsed / movement_duration s);
              s = interpolate s progress;
              s = (if progress \<ge> 1 then complete_movement s else s);
              (s, w) = publish_registers (s, w)
          in (None, s, w))"

definition start_movement :: "sim \<times> world \<Rightarrow> exn option \<times> sim \<times> world" where
  "start_movement sw =
     (let (s, w) = sw;
          s = s\<lparr>is_busy := True\<rparr>;
          (now, w) = time_time w;
          s = s\<lparr>movement_start_time := Some now\<rparr>
      in if simulation_speed s = 0 then (Some ZeroDivisionError, s, w)
         else (None, s\<lparr>movement_duration := (1 / 2) / simulation_speed s\<rparr>, w))"

definition sim_write_register :: "int \<Rightarrow> int \<Rightarrow> sim \<times> world \<Rightarrow> exn option \<times> sim \<times> world" where
  "sim_write_register reg v sw =
     (let (s, w) = sw;
          r =
            (if reg = REG_TARGET_FORCE then
               (None, s\<lparr>target_force := max 0 (min 1000 v)\<rparr>, w)
             else if reg = REG_TARGET_DIAMETER then
               (None, s\<lparr>target_diameter := max (min_diameter s) (min (max_diameter s) v)\<rparr>, w)
             else if reg = REG_GRIP_TYPE then
               (case GripType_of v of
                  Inl e \<Rightarrow> (Some e, s, w)
                | Inr gt \<Rightarrow> (None, s\<lparr>grip_type := gt\<rparr>, w))
             else if reg = REG_CONTROL then
               (if v \<in> set [CMD_GRIP, CMD_MOVE, CMD_FLEXIBLE_GRIP] then start_movement (s, w)
                else if v = CMD_STOP then
                  (None, s\<lparr>is_busy := False, movement_start_time := None\<rparr>, w)
                else (None, s, w))
             else (None, s, w))
      in case r of
           (Some e, s, w) \<Rightarrow> (Some e, s, w)
         | (None, s, w) \<Rightarrow> update_movement (s\<lparr>registers := (registers s)(reg \<mapsto> v)\<rparr>, w))"

definition sim_read_registers ::
  "int \<Rightarrow> nat \<Rightarrow> sim \<times> world \<Rightarrow> (exn + int list) \<times> sim \<times> world" where
  "sim_read_registers reg count sw =
     (case update_movement sw of
        (Some e, s, w) \<Rightarrow> (Inl e, s, w)
      | (None, s, w) \<Rightarrow>
          (Inr (map (\<lambda>i. case registers s (reg + int i) of Some v \<Rightarrow> v | None \<Rightarrow> 0)
                  [0..<count]), s, w))"

definition simulator :: "(sim \<times> world) gripper" where
  \<comment> \<open>the simulator as an implementation of \<open>GripperBase\<close>\<close>
  "simulator =
     \<lparr>open_connection = (\<lambda>sw. (Inr True, sw)),
      read_registers = sim_read_registers,
      write_register = sim_write_register\<rparr>"

fun update_steps :: "nat \<Rightarrow> sim \<times> world \<Rightarrow> sim \<times> world" where
  \<comment> \<open>\<open>n\<close> successive calls of \<open>_update_movement\<close>\<close>
  "update_steps 0 sw = sw"
| "update_steps (Suc n) sw = update_steps n (snd (update_movement sw))"

text \<open>
  A client of the simulator calls the two register primitives; an exception is the
  client's to catch, and the simulator keeps the state the call left.
\<close>

datatype sim_call = Write int int | Read int nat

fun run_calls :: "sim_call list \<Rightarrow> sim \<times> world \<Rightarrow> sim \<times> world" where
  "run_calls [] sw = sw"
| "run_calls (Write reg v # cs) sw = run_calls cs (snd (sim_write_register reg v sw))"
| "run_calls (Read reg n # cs) sw = run_calls cs (snd (sim_read_registers reg n sw))"

definition ticking_world :: "rat \<Rightarrow> world" where
  \<comment> \<open>a world for concrete runs: the clock starts at 0 and advances by \<open>dt\<close> seconds from
      one reading to the next; \<open>random()\<close> always returns 1/2, the sample of zero noise\<close>
  "ticking_world dt =
     \<lparr>clock = (\<lambda>k. of_nat k * dt), clock_reads = 0, rng = (\<lambda>k. 1 / 2), rng_reads = 0\<rparr>"

definition spec_interpolated_diameter :: "int \<Rightarrow> int \<Rightarrow> rat \<Rightarrow> rat \<Rightarrow> rat" where
  \<comment> \<open>the diameter the specification gives for an update step: the linear interpolation
      between the diameter at movement start and the target, along the easing curve\<close>
  "spec_interpolated_diameter start target elapsed duration =
     of_int start + of_int (target - start) * ease_in_out (min 1 (elapsed / duration))"

section \<open>server/simple\_modbus\_server.py\<close>

text \<open>
  \<open>GripperDevice\<close> with the fields it inherits from \<open>SimpleDevice\<close>.  The gripper the
  device drives is the \<open>'g gripper\<close> passed to each operation; its state travels beside
  the device.
\<close>

record device =
  coils :: "bool list"
  hrs :: "int list"
  dis :: "bool list"
  irs :: "int list"
  open_cmd_coil :: int
  status_coil :: int
  connected :: bool
  close_cmd_coil :: "int option"
  move_cmd_coil :: "int option"
  flex_cmd_coil :: "int option"
  stop_cmd_coil :: "int option"
  status_open_coil :: int
  status_closed_coil :: int
  status_grip_coil :: int
  hr_force_index :: int
  hr_diameter_index :: int
  hr_griptype_index :: int
  hr_cmd_index :: int
  ir_width_index :: int
  min_d :: "int option"
  max_d :: "int option"

definition GripperDevice :: device where
  \<comment> \<open>the constructor with the default value of every argument\<close>
  "GripperDevice =
     \<lparr>coils = replicate 64 False,
      hrs = replicate 128 0,
      dis = replicate 64 False,
      irs = replicate 128 0,
      open_cmd_coil = 0,
      status_coil = 1,
      connected = False,
      close_cmd_coil = None,
      move_cmd_coil = None,
      flex_cmd_coil = None,
      stop_cmd_coil = None,
      status_open_coil = 3,
      status_closed_coil = 4,
      status_grip_coil = 5,
      hr_force_index = 0,
      hr_diameter_index = 1,
      hr_griptype_index = 2,
      hr_cmd_index = - 1,
      ir_width_index = 0,
      min_d = None,
      max_d = None\<rparr>"


fun get_range :: "'a list \<Rightarrow> int \<Rightarrow> nat \<Rightarrow> exn + 'a list" where
  \<comment> \<open>\<open>[xs[address + i] for i in range(count)]\<close>\<close>
  "get_range xs address 0 = Inr []"
| "get_range xs address (Suc n) =
     (case py_get xs address of
        Inl e \<Rightarrow> Inl e
      | Inr x \<Rightarrow> (case get_range xs (address + 1) n of Inl e \<Rightarrow> Inl e | Inr r \<Rightarrow> Inr (x # r)))"


fun set_range :: "int list \<Rightarrow> int \<Rightarrow> int list \<Rightarrow> exn option \<times> int list" where
  \<comment> \<open>\<open>for i, v in enumerate(values): xs[address + i] = int(v) & 0xFFFF\<close>\<close>
  "set_range xs address [] = (None, xs)"
| "set_range xs address (v # vs) =
     (case py_set xs address (v AND 0xFFFF) of
        Inl e \<Rightarrow> (Some e, xs)
      | Inr xs' \<Rightarrow> set_range xs' (address + 1) vs)"

definition SimpleDevice_set_holding_registers ::
  "int \<Rightarrow> int list \<Rightarrow> device \<Rightarrow> exn option \<times> device" where
  "SimpleDevice_set_holding_registers address vals d =
     (let (e, h) = set_range (hrs d) address vals in (e, d\<lparr>hrs := h\<rparr>))"

definition gateway_is_busy :: "'g gripper \<Rightarrow> 'g \<Rightarrow> bool \<times> 'g" where
  \<comment> \<open>\<open>GripperDevice._is_busy\<close>\<close>
  "gateway_is_busy G g =
     (case get_status G g of
        (Inl e, g) \<Rightarrow> (False, g)
      | (Inr None, g) \<Rightarrow> (False, g)
      | (Inr (Some st), g) \<Rightarrow> (busy st, g))"

text \<open>
  \<open>_wait_ready\<close> polls until the gripper is not busy or ten seconds have passed on the
  gateway's clock.  How many polls fit before the timeout depends on that clock; the
  number is the argument \<open>polls\<close>.
\<close>

fun wait_ready :: "'g gripper \<Rightarrow> nat \<Rightarrow> 'g \<Rightarrow> bool \<times> 'g" where
  "wait_ready G 0 g = (False, g)"
| "wait_ready G (Suc polls) g =
     (let (b, g) = gateway_is_busy G g in if \<not> b then (True, g) else wait_ready G polls g)"

definition clamp_learned :: "device \<Rightarrow> int \<Rightarrow> int" where
  \<comment> \<open>the two \<open>if self._min_d is not None\<close> / \<open>if self._max_d is not None\<close> statements\<close>
  "clamp_learned d diameter =
     (let diameter = (case min_d d of Some m \<Rightarrow> max m diameter | None \<Rightarrow> diameter);
          diameter = (case max_d d of Some m \<Rightarrow> min m diameter | None \<Rightarrow> diameter)
      in diameter)"


definition decode_grip_type :: "int \<Rightarrow> GripType" where
  \<comment> \<open>\<open>GripType.INTERNAL if gtv == GripType.INTERNAL.value else GripType.EXTERNAL\<close>\<close>
  "decode_grip_type gtv = (if gtv = GripType_value INTERNAL then INTERNAL else EXTERNAL)"




definition clear_cmd :: "device \<Rightarrow> device" where
  \<comment> \<open>"Clear command register to 0 after handling", inside \<open>try: ... except Exception: pass\<close>\<close>
  "clear_cmd d =
     (case py_set (hrs d) (hr_cmd_index d) 0 of
        Inl e \<Rightarrow> d
      | Inr h \<Rightarrow> snd (SimpleDevice_set_holding_registers (hr_cmd_index d) [0] (d\<lparr>hrs := h\<rparr>)))"



fun coils_loop ::
  "'g gripper \<Rightarrow> device \<Rightarrow> int \<Rightarrow> nat \<Rightarrow> nat \<Rightarrow> bool list \<Rightarrow> 'g \<Rightarrow> bool list \<times> 'g" where
  \<comment> \<open>the iterations \<open>i, i + 1, ...\<close> of \<open>for i in range(count)\<close> in \<open>get_coils\<close>, \<open>n\<close> of
      them left; an exception of \<open>get_status\<close> leaves the loop with \<open>out\<close> as it is\<close>
  "coils_loop G d address i 0 out g = (out, g)"
| "coils_loop G d address i (Suc n) out g =
     (let idx = address + int i in
      if \<not> connected d then coils_loop G d address (Suc i) n out g
      else
        case get_status G g of
          (Inl e, g) \<Rightarrow> (out, g)
        | (Inr st, g) \<Rightarrow>
            let (grip, bsy) =
                  (case st of
                     None \<Rightarrow> (False, True)
                   | Some st \<Rightarrow> (grip_detected st \<or> force_grip_detected st, busy st));
                (cur_d, g) =
                  (case get_raw_diameter G g of
                     (Inl e, g) \<Rightarrow> (None, g)
                   | (Inr None, g) \<Rightarrow> (None, g)
                   | (Inr (Some raw_mm), g) \<Rightarrow> (Some (py_round (raw_mm * 10)), g));
                open_bit =
                  (case cur_d of
                     None \<Rightarrow> False
                   | Some c \<Rightarrow> (case max_d d of None \<Rightarrow> False | Some m \<Rightarrow> c \<ge> m - 5));
                closed_bit =
                  (case cur_d of
                     None \<Rightarrow> False
                   | Some c \<Rightarrow> (case min_d d of None \<Rightarrow> False | Some m \<Rightarrow> c \<le> m + 5));
                out =
                  (if idx = status_coil d then out[i := \<not> bsy]
                   else if idx = status_grip_coil d then out[i := grip]
                   else if idx = status_open_coil d then out[i := open_bit]
                   else if idx = status_closed_coil d then out[i := closed_bit]
                   else out)
            in coils_loop G d address (Suc i) n out g)"

definition get_coils :: "'g gripper \<Rightarrow> int \<Rightarrow> nat \<Rightarrow> device \<times> 'g \<Rightarrow> (exn + bool list) \<times> 'g" where
  \<comment> \<open>\<open>GripperDevice.get_coils\<close>\<close>
  "get_coils G address count dg =
     (let (d, g) = dg in
      case get_range (coils d) address count of
        Inl e \<Rightarrow> (Inl e, g)
      | Inr out \<Rightarrow> (let (out, g) = coils_loop G d address 0 count out g in (Inr out, g)))"

fun store_coils :: "bool list \<Rightarrow> int \<Rightarrow> bool list \<Rightarrow> bool list" where
  \<comment> \<open>the first loop of \<open>GripperDevice.set_coils\<close>: the in-memory coils take the written
      values, an index out of range is skipped\<close>
  "store_coils cs address [] = cs"
| "store_coils cs address (v # vs) =
     store_coils (if 0 \<le> address \<and> address < int (length cs) then cs[nat address := v] else cs)
       (address + 1) vs"

definition hr_or :: "device \<Rightarrow> int \<Rightarrow> int \<Rightarrow> exn + int" where
  \<comment> \<open>\<open>int(self._hrs[index]) if self._hrs else default\<close>\<close>
  "hr_or d i dflt = (if hrs d \<noteq> [] then py_get (hrs d) i else Inr dflt)"

definition coil_action :: "'g gripper \<Rightarrow> nat \<Rightarrow> device \<Rightarrow> int \<Rightarrow> bool \<Rightarrow> 'g \<Rightarrow> exn option \<times> 'g" where
  \<comment> \<open>one iteration of the second loop of \<open>GripperDevice.set_coils\<close>; the holding
      registers are read outside the \<open>try\<close>, so their IndexError propagates\<close>
  "coil_action G polls d idx v g =
     (if \<not> connected d then (None, g)
      else if idx = open_cmd_coil d then
        (case hr_or d (hr_force_index d) 500 of
           Inl e \<Rightarrow> (Some e, g)
         | Inr force \<Rightarrow>
             if close_cmd_coil d = None then
               (if v then (None, snd (open_gripper G force (snd (wait_ready G polls g))))
                else (None, snd (close_gripper G force (snd (wait_ready G polls g)))))
             else
               (if v then (None, snd (open_gripper G force (snd (wait_ready G polls g))))
                else (None, g)))
      else if close_cmd_coil d \<noteq> None \<and> Some idx = close_cmd_coil d \<and> v then
        (case hr_or d (hr_force_index d) 500 of
           Inl e \<Rightarrow> (Some e, g)
         | Inr force \<Rightarrow> (None, snd (close_gripper G force (snd (wait_ready G polls g)))))
      else if move_cmd_coil d \<noteq> None \<and> Some idx = move_cmd_coil d \<and> v then
        (case hr_or d (hr_force_index d) 500 of Inl e \<Rightarrow> (Some e, g) | Inr force \<Rightarrow>
         case hr_or d (hr_diameter_index d) 100 of Inl e \<Rightarrow> (Some e, g) | Inr diameter \<Rightarrow>
         case hr_or d (hr_griptype_index d) 0 of Inl e \<Rightarrow> (Some e, g) | Inr gtv \<Rightarrow>
           (None, snd (move_gripper G (clamp_learned d diameter) force (decode_grip_type gtv)
                         (snd (wait_ready G polls g)))))
      else if flex_cmd_coil d \<noteq> None \<and> Some idx = flex_cmd_coil d \<and> v then
        (case hr_or d (hr_force_index d) 100 of Inl e \<Rightarrow> (Some e, g) | Inr force \<Rightarrow>
         case hr_or d (hr_diameter_index d) 100 of Inl e \<Rightarrow> (Some e, g) | Inr diameter \<Rightarrow>
         case hr_or d (hr_griptype_index d) 1 of Inl e \<Rightarrow> (Some e, g) | Inr gtv \<Rightarrow>
           (None, snd (flex_grip G (clamp_learned d diameter) force (decode_grip_type gtv)
                         (snd (wait_ready G polls g)))))
      else if stop_cmd_coil d \<noteq> None \<and> Some idx = stop_cmd_coil d \<and> v then
        (None, snd (set_control G CMD_STOP g))
      else (None, g))"

fun coil_actions ::
  "'g gripper \<Rightarrow> nat \<Rightarrow> device \<Rightarrow> int \<Rightarrow> bool list \<Rightarrow> 'g \<Rightarrow> exn option \<times> 'g" where
  "coil_actions G polls d address [] g = (None, g)"
| "coil_actions G polls d address (v # vs) g =
     (case coil_action G polls d address v g of
        (Some e, g) \<Rightarrow> (Some e, g)
      | (None, g) \<Rightarrow> coil_actions G polls d (address + 1) vs g)"

definition set_coils ::
  "'g gripper \<Rightarrow> nat \<Rightarrow> int \<Rightarrow> bool list \<Rightarrow> device \<times> 'g \<Rightarrow> exn option \<times> device \<times> 'g" where
  \<comment> \<open>\<open>GripperDevice.set_coils\<close>\<close>
  "set_coils G polls address vals dg =
     (let (d, g) = dg;
          d = d\<lparr>coils := store_coils (coils d) address vals\<rparr>;
          (e, g) = coil_actions G polls d address vals g
      in (e, d, g))"

section \<open>Instruments for stating the properties\<close>

text \<open>
  \<open>logged G\<close> is the gripper \<open>G\<close> with a log beside its state: every \<open>write_register\<close>
  call appends its register and value to the log, whether the device accepts the write
  or raises.  Reads and the device itself are as in \<open>G\<close>.
\<close>

definition logged :: "'g gripper \<Rightarrow> ('g \<times> (int \<times> int) list) gripper" where
  "logged G =
     \<lparr>open_connection = (\<lambda>gl. case open_connection G (fst gl) of (r, g') \<Rightarrow> (r, g', snd gl)),
      read_registers =
        (\<lambda>reg n gl. case read_registers G reg n (fst gl) of (r, g') \<Rightarrow> (r, g', snd gl)),
      write_register =
        (\<lambda>reg v gl. case write_register G reg v (fst gl) of
                       (e, g') \<Rightarrow> (e, g', snd gl @ [(reg, v)]))\<rparr>"

fun accepted :: "'g gripper \<Rightarrow> (int \<times> int) list \<Rightarrow> 'g \<Rightarrow> bool" where
  \<comment> \<open>the device takes the writes one after the other and raises at none\<close>
  "accepted G [] g = True"
| "accepted G ((reg, v) # ws) g =
     (case write_register G reg v g of (None, g') \<Rightarrow> accepted G ws g' | (Some e, g') \<Rightarrow> False)"

definition settled :: "sim \<Rightarrow> bool" where
  \<comment> \<open>the state a completed movement leaves: diameter and force at their targets, the
      detection flags as \<open>_update_grip_detection\<close> computes them there\<close>
  "settled s =
     (current_diameter s = target_diameter s \<and> current_force s = target_force s \<and>
      sim_grip_detected s =
        (of_int (target_diameter s) < (of_int (max_diameter s) * (9 / 10) :: rat)) \<and>
      sim_force_grip_detected s =
        (of_int (target_diameter s) < (of_int (max_diameter s) * (9 / 10) :: rat) \<and>
         of_int (target_force s) > (of_int (target_force s) * (8 / 10) :: rat)))"

definition telemetry_in_sync :: "sim \<Rightarrow> bool" where
  \<comment> \<open>the three telemetry registers hold the engine's diameter and force\<close>
  "telemetry_in_sync s =
     (registers s REG_RAW_DIAMETER = Some (current_diameter s) \<and>
      registers s REG_DIAMETER_OFFSET = Some (current_diameter s) \<and>
      registers s REG_FORCE_APPLIED = Some (current_force s))"

fun writes_telemetry :: "sim_call \<Rightarrow> bool" where
  "writes_telemetry (Write reg v) =
     (reg \<in> {REG_RAW_DIAMETER, REG_DIAMETER_OFFSET, REG_FORCE_APPLIED})"
| "writes_telemetry (Read reg n) = False"

definition quiet :: "sim \<Rightarrow> bool" where
  \<comment> \<open>noise is off, the movement duration is not zero and the telemetry registers are
      in step with the engine: what the constructor sets up and the register calls keep\<close>
  "quiet s = (\<not> enable_noise s \<and> movement_duration s \<noteq> 0 \<and> telemetry_in_sync s)"

definition unreachable :: "unit gripper" where
  \<comment> \<open>a gripper behind a dead line, as \<open>ThreeFG15Modbus\<close> behaves when every request
      comes back as an error: each register call raises RuntimeError\<close>
  "unreachable =
     \<lparr>open_connection = (\<lambda>g. (Inr True, g)),
      read_registers = (\<lambda>reg n g. (Inl RuntimeError, g)),
      write_register = (\<lambda>reg v g. (Some RuntimeError, g))\<rparr>"

section \<open>Verification: the status decoder\<close>

lemma bin_digits_length: "0 < length (bin_digits n)"
  by (subst bin_digits.simps) simp

lemma rev_bin_digits_nth:
  "k < length (bin_digits n) \<Longrightarrow> rev (bin_digits n) ! k = bit_char ((n div 2 ^ k) mod 2)"
proof (induction n arbitrary: k rule: bin_digits.induct)
  case (1 n)
  show ?case
  proof (cases "n < 2")
    case True
    with "1.prems" have "k = 0"
      by (subst (asm) bin_digits.simps) simp
    with True show ?thesis
      by (subst bin_digits.simps) simp
  next
    case False
    then have eq: "bin_digits n = bin_digits (n div 2) @ [bit_char (n mod 2)]"
      by (subst bin_digits.simps) simp
    show ?thesis
    proof (cases k)
      case 0
      then show ?thesis by (simp add: eq)
    next
      case (Suc j)
      with "1.prems" eq have "j < length (bin_digits (n div 2))" by simp
      with "1.IH" [OF False] have "rev (bin_digits (n div 2)) ! j =
          bit_char ((n div 2 div 2 ^ j) mod 2)" by simp
      then show ?thesis by (simp add: eq Suc div_mult2_eq)
    qed
  qed
qed

lemma bin_digits_bound: "n < 2 ^ length (bin_digits n)"
proof (induction n rule: bin_digits.induct)
  case (1 n)
  show ?case
  proof (cases "n < 2")
    case True
    then show ?thesis by (subst bin_digits.simps) simp
  next
    case False
    then have eq: "bin_digits n = bin_digits (n div 2) @ [bit_char (n mod 2)]"
      by (subst bin_digits.simps) simp
    from "1.IH" [OF False] have "n div 2 < 2 ^ length (bin_digits (n div 2))" .
    then have "n < 2 * 2 ^ length (bin_digits (n div 2))" by linarith
    then show ?thesis by (simp add: eq)
  qed
qed

lemma rev_pad_zeros_nth:
  assumes "k < length (pad_zeros w (bin_digits n))"
  shows "rev (pad_zeros w (bin_digits n)) ! k = bit_char ((n div 2 ^ k) mod 2)"
proof (cases "k < length (bin_digits n)")
  case True
  then show ?thesis
    by (simp add: pad_zeros_def nth_append rev_bin_digits_nth)
next
  case False
  then have "2 ^ length (bin_digits n) \<le> (2::nat) ^ k" by simp
  with bin_digits_bound [of n] have "n < 2 ^ k" by linarith
  then have z: "n div 2 ^ k = 0" by simp
  from False assms have "rev (pad_zeros w (bin_digits n)) ! k = CHR ''0''"
    by (simp add: pad_zeros_def nth_append)
  with z show ?thesis by (simp add: bit_char_def)
qed

lemma py_get_from_end:
  assumes "k < length xs" shows "py_get xs (- 1 - int k) = Inr (rev xs ! k)"
proof -
  have "nat (int (length xs) + (- 1 - int k)) = length xs - Suc k" using assms by linarith
  moreover have "py_index (length xs) (- 1 - int k) =
      Some (nat (int (length xs) + (- 1 - int k)))"
    using assms by (simp add: py_index_def)
  ultimately show ?thesis using assms by (simp add: py_get_def rev_nth)
qed

lemma pad_zeros_length: "w \<le> length (pad_zeros w s)"
  by (simp add: pad_zeros_def)

lemma bool_digit_format:
  assumes "0 \<le> v" "k < 16"
  shows "bool_digit (format_016b v) (- 1 - int k) = Inr (bit v k)"
proof -
  let ?s = "pad_zeros 16 (bin_digits (nat v))"
  from assms pad_zeros_length [of 16 "bin_digits (nat v)"] have k: "k < length ?s" by linarith
  have "py_get ?s (- 1 - int k) = Inr (bit_char ((nat v div 2 ^ k) mod 2))"
    using py_get_from_end [OF k] rev_pad_zeros_nth [OF k] by simp
  moreover have "bit v k = odd (nat v div 2 ^ k)"
    using assms(1) by (metis bit_nat_iff bit_iff_odd nat_0_le)
  ultimately show ?thesis using assms(1)
    by (auto simp add: bool_digit_def format_016b_def bit_char_def int_of_char_def odd_iff_mod_2_eq_one)
qed

lemma from_register_bits:
  assumes "0 \<le> v"
  shows "from_register v = Inr \<lparr>busy = bit v 0, grip_detected = bit v 1,
     force_grip_detected = bit v 2, calibration_ok = bit v 3\<rparr>"
  using bool_digit_format [OF assms, of 0] bool_digit_format [OF assms, of 1]
    bool_digit_format [OF assms, of 2] bool_digit_format [OF assms, of 3]
  by (simp add: from_register_def Let_def)

text \<open>
  Claim C5.  For every 16-bit register value \<open>v\<close> the decoder \<open>from_register\<close> returns
  a status whose \<open>busy\<close> is bit 0 of \<open>v\<close>, \<open>grip_detected\<close> bit 1,
  \<open>force_grip_detected\<close> bit 2 and \<open>calibration_ok\<close> bit 3; the bits above play no
  part.  In particular \<open>0b0011\<close> decodes to busy and grip detected only, and \<open>0b1100\<close>
  to force grip detected and calibration ok only.
\<close>

theorem from_register_decodes_bits:
  "(\<forall>v. 0 \<le> v \<and> v < 65536 \<longrightarrow>
      from_register v = Inr \<lparr>busy = bit v 0, grip_detected = bit v 1,
        force_grip_detected = bit v 2, calibration_ok = bit v 3\<rparr>) \<and>
   from_register 3 = Inr \<lparr>busy = True, grip_detected = True,
        force_grip_detected = False, calibration_ok = False\<rparr> \<and>
   from_register 12 = Inr \<lparr>busy = False, grip_detected = False,
        force_grip_detected = True, calibration_ok = True\<rparr>"
proof -
  have a: "from_register 3 = Inr \<lparr>busy = bit (3::int) 0, grip_detected = bit (3::int) 1,
     force_grip_detected = bit (3::int) 2, calibration_ok = bit (3::int) 3\<rparr>"
    by (rule from_register_bits) simp
  have b: "from_register 12 = Inr \<lparr>busy = bit (12::int) 0, grip_detected = bit (12::int) 1,
     force_grip_detected = bit (12::int) 2, calibration_ok = bit (12::int) 3\<rparr>"
    by (rule from_register_bits) simp
  show ?thesis using a b by (simp add: from_register_bits bit_numeral_simps)
qed


theorem from_register_decodes_bits_witness:
  "(0::int) \<le> 43690 \<and> (43690::int) < 65536 \<and>
   from_register 43690 = Inr \<lparr>busy = False, grip_detected = True,
        force_grip_detected = False, calibration_ok = True\<rparr>"
  using from_register_decodes_bits [THEN conjunct1, rule_format, of 43690]
  by (simp add: bit_numeral_simps)

section \<open>Verification: the simulator\<close>

lemma update_movement_idle:
  "\<not> is_busy s \<Longrightarrow> update_movement (s, w) = (None, s, w)"
  by (simp add: update_movement_def)

lemma update_movement_no_start:
  "movement_start_time s = None \<Longrightarrow> update_movement (s, w) = (None, s, w)"
  by (simp add: update_movement_def)

lemma update_grip_detection_fields [simp]:
  "registers (update_grip_detection s) = registers s"
  "min_diameter (update_grip_detection s) = min_diameter s"
  "max_diameter (update_grip_detection s) = max_diameter s"
  "enable_noise (update_grip_detection s) = enable_noise s"
  "current_diameter (update_grip_detection s) = current_diameter s"
  "target_diameter (update_grip_detection s) = target_diameter s"
  "current_force (update_grip_detection s) = current_force s"
  "target_force (update_grip_detection s) = target_force s"
  "grip_type (update_grip_detection s) = grip_type s"
  "is_busy (update_grip_detection s) = is_busy s"
  "sim_calibration_ok (update_grip_detection s) = sim_calibration_ok s"
  "movement_start_time (update_grip_detection s) = movement_start_time s"
  "movement_duration (update_grip_detection s) = movement_duration s"
  "simulation_speed (update_grip_detection s) = simulation_speed s"
  "finger_length (update_grip_detection s) = finger_length s"
  by (simp_all add: update_grip_detection_def Let_def)

lemma add_noise_off: "\<not> enable_noise s \<Longrightarrow> add_noise s v p w = (v, w)"
  by (simp add: add_noise_def)



lemma add_noise_world [simp]:
  "clock (snd (add_noise s v p w)) = clock w" "rng (snd (add_noise s v p w)) = rng w"
  by (simp_all add: add_noise_def random_uniform_def split_def)

lemma interpolate_fields [simp]:
  "registers (interpolate s p) = registers s"
  "min_diameter (interpolate s p) = min_diameter s"
  "max_diameter (interpolate s p) = max_diameter s"
  "enable_noise (interpolate s p) = enable_noise s"
  "target_diameter (interpolate s p) = target_diameter s"
  "target_force (interpolate s p) = target_force s"
  "grip_type (interpolate s p) = grip_type s"
  "is_busy (interpolate s p) = is_busy s"
  "sim_grip_detected (interpolate s p) = sim_grip_detected s"
  "sim_force_grip_detected (interpolate s p) = sim_force_grip_detected s"
  "sim_calibration_ok (interpolate s p) = sim_calibration_ok s"
  "movement_start_time (interpolate s p) = movement_start_time s"
  "movement_duration (interpolate s p) = movement_duration s"
  "simulation_speed (interpolate s p) = simulation_speed s"
  "finger_length (interpolate s p) = finger_length s"
  by (simp_all add: interpolate_def Let_def)

lemma complete_movement_fields [simp]:
  "registers (complete_movement s) = registers s"
  "min_diameter (complete_movement s) = min_diameter s"
  "max_diameter (complete_movement s) = max_diameter s"
  "enable_noise (complete_movement s) = enable_noise s"
  "target_diameter (complete_movement s) = target_diameter s"
  "target_force (complete_movement s) = target_force s"
  "current_diameter (complete_movement s) = target_diameter s"
  "current_force (complete_movement s) = target_force s"
  "grip_type (complete_movement s) = grip_type s"
  "is_busy (complete_movement s) = False"
  "sim_calibration_ok (complete_movement s) = sim_calibration_ok s"
  "movement_start_time (complete_movement s) = None"
  "movement_duration (complete_movement s) = movement_duration s"
  "simulation_speed (complete_movement s) = simulation_speed s"
  "finger_length (complete_movement s) = finger_length s"
  by (simp_all add: complete_movement_def)

lemma complete_movement_detection:
  "sim_grip_detected (complete_movement s) =
     (of_int (target_diameter s) < (of_int (max_diameter s) * (9 / 10) :: rat))"
  "sim_force_grip_detected (complete_movement s) =
     (of_int (target_diameter s) < (of_int (max_diameter s) * (9 / 10) :: rat) \<and>
      of_int (target_force s) > (of_int (target_force s) * (8 / 10) :: rat))"
  by (simp_all add: complete_movement_def update_grip_detection_def Let_def)

lemma publish_registers_fields [simp]:
  "min_diameter (fst (publish_registers (s, w))) = min_diameter s"
  "max_diameter (fst (publish_registers (s, w))) = max_diameter s"
  "enable_noise (fst (publish_registers (s, w))) = enable_noise s"
  "target_diameter (fst (publish_registers (s, w))) = target_diameter s"
  "target_force (fst (publish_registers (s, w))) = target_force s"
  "current_diameter (fst (publish_registers (s, w))) = current_diameter s"
  "current_force (fst (publish_registers (s, w))) = current_force s"
  "grip_type (fst (publish_registers (s, w))) = grip_type s"
  "is_busy (fst (publish_registers (s, w))) = is_busy s"
  "sim_grip_detected (fst (publish_registers (s, w))) = sim_grip_detected s"
  "sim_force_grip_detected (fst (publish_registers (s, w))) = sim_force_grip_detected s"
  "sim_calibration_ok (fst (publish_registers (s, w))) = sim_calibration_ok s"
  "movement_start_time (fst (publish_registers (s, w))) = movement_start_time s"
  "movement_duration (fst (publish_registers (s, w))) = movement_duration s"
  "simulation_speed (fst (publish_registers (s, w))) = simulation_speed s"
  "finger_length (fst (publish_registers (s, w))) = finger_length s"
  "clock (snd (publish_registers (s, w))) = clock w"
  "rng (snd (publish_registers (s, w))) = rng w"
  by (simp_all add: publish_registers_def split_def Let_def)

lemma publish_registers_other:
  "a \<notin> {REG_STATUS, REG_RAW_DIAMETER, REG_DIAMETER_OFFSET, REG_FORCE_APPLIED} \<Longrightarrow>
   registers (fst (publish_registers (s, w))) a = registers s a"
  by (simp add: publish_registers_def split_def Let_def)

lemma publish_registers_quiet:
  "\<not> enable_noise s \<Longrightarrow>
   publish_registers (s, w) =
     (s\<lparr>registers := (registers s)
          (REG_RAW_DIAMETER \<mapsto> current_diameter s,
           REG_DIAMETER_OFFSET \<mapsto> current_diameter s,
           REG_FORCE_APPLIED \<mapsto> current_force s,
           REG_STATUS \<mapsto> calculate_status_register s)\<rparr>, w)"
  by (simp add: publish_registers_def add_noise_off)

lemma update_movement_busy:
  assumes "is_busy s" "movement_start_time s = Some t0" "movement_duration s \<noteq> 0"
  shows "update_movement (s, w) =
    (let progress = min 1 ((clock w (clock_reads w) - t0) / movement_duration s);
         s1 = interpolate s progress;
         s2 = (if progress \<ge> 1 then complete_movement s1 else s1)
     in (None, publish_registers (s2, w\<lparr>clock_reads := Suc (clock_reads w)\<rparr>)))"
  using assms by (simp add: update_movement_def Let_def split_def time_time_def)

lemma update_movement_keeps [simp]:
  "target_force (fst (snd (update_movement (s, w)))) = target_force s"
  "target_diameter (fst (snd (update_movement (s, w)))) = target_diameter s"
  "min_diameter (fst (snd (update_movement (s, w)))) = min_diameter s"
  "max_diameter (fst (snd (update_movement (s, w)))) = max_diameter s"
  "enable_noise (fst (snd (update_movement (s, w)))) = enable_noise s"
  "grip_type (fst (snd (update_movement (s, w)))) = grip_type s"
  "movement_duration (fst (snd (update_movement (s, w)))) = movement_duration s"
  "simulation_speed (fst (snd (update_movement (s, w)))) = simulation_speed s"
  "finger_length (fst (snd (update_movement (s, w)))) = finger_length s"
  "clock (snd (snd (update_movement (s, w)))) = clock w"
  "rng (snd (snd (update_movement (s, w)))) = rng w"
  by (simp_all add: update_movement_def Let_def split_def time_time_def)

lemma update_movement_registers_other:
  "a \<notin> {REG_STATUS, REG_RAW_DIAMETER, REG_DIAMETER_OFFSET, REG_FORCE_APPLIED} \<Longrightarrow>
   registers (fst (snd (update_movement (s, w)))) a = registers s a"
  by (simp add: update_movement_def Let_def split_def time_time_def publish_registers_other)

lemma update_movement_no_exn:
  "movement_duration s \<noteq> 0 \<Longrightarrow> fst (update_movement (s, w)) = None"
  by (simp add: update_movement_def Let_def split_def)

text \<open>An update step either leaves the engine busy or has completed the movement.\<close>

lemma update_movement_completes:
  assumes "\<not> is_busy (fst (snd (update_movement (s, w))))" "is_busy s"
  shows "current_diameter (fst (snd (update_movement (s, w)))) = target_diameter s \<and>
     current_force (fst (snd (update_movement (s, w)))) = target_force s \<and>
     sim_grip_detected (fst (snd (update_movement (s, w)))) =
       (of_int (target_diameter s) < (of_int (max_diameter s) * (9 / 10) :: rat)) \<and>
     sim_force_grip_detected (fst (snd (update_movement (s, w)))) =
       (of_int (target_diameter s) < (of_int (max_diameter s) * (9 / 10) :: rat) \<and>
        of_int (target_force s) > (of_int (target_force s) * (8 / 10) :: rat))"
  using assms
  by (simp add: update_movement_def Let_def split_def time_time_def complete_movement_detection
      split: if_splits)

text \<open>
  Claim C7.  A write of \<open>v\<close> to the grip-type register of the simulated engine sets the
  grip type to EXTERNAL when \<open>v\<close> is 0 and to INTERNAL when \<open>v\<close> is 1.  For every other
  \<open>v\<close> the write raises ValueError, the invalid-argument error of the enum, and leaves
  the engine exactly as it was: no field and no register changes, the grip type included.
\<close>

theorem grip_type_register_write:
  "(v = 0 \<longrightarrow> grip_type (fst (snd (sim_write_register REG_GRIP_TYPE v (s, w)))) = EXTERNAL
        \<and> fst (sim_write_register REG_GRIP_TYPE v (s, w)) \<noteq> Some ValueError) \<and>
   (v = 1 \<longrightarrow> grip_type (fst (snd (sim_write_register REG_GRIP_TYPE v (s, w)))) = INTERNAL
        \<and> fst (sim_write_register REG_GRIP_TYPE v (s, w)) \<noteq> Some ValueError) \<and>
   (v \<noteq> 0 \<and> v \<noteq> 1 \<longrightarrow> sim_write_register REG_GRIP_TYPE v (s, w) = (Some ValueError, s, w))"
  by (simp add: sim_write_register_def GripType_of_def update_movement_def Let_def split_def)


theorem grip_type_register_write_witness:
  "grip_type (fst (snd (sim_write_register REG_GRIP_TYPE 1
       (ThreeFG15Simulator 0 1000 500 1 True, ticking_world 1)))) = INTERNAL \<and>
   grip_type (fst (snd (sim_write_register REG_GRIP_TYPE 0
       (ThreeFG15Simulator 0 1000 500 1 True, ticking_world 1)))) = EXTERNAL \<and>
   sim_write_register REG_GRIP_TYPE 7 (ThreeFG15Simulator 0 1000 500 1 True, ticking_world 1) =
     (Some ValueError, ThreeFG15Simulator 0 1000 500 1 True, ticking_world 1)"
  using grip_type_register_write [of 1 "ThreeFG15Simulator 0 1000 500 1 True" "ticking_world 1"]
    grip_type_register_write [of 0 "ThreeFG15Simulator 0 1000 500 1 True" "ticking_world 1"]
    grip_type_register_write [of 7 "ThreeFG15Simulator 0 1000 500 1 True" "ticking_world 1"]
  by simp

lemma sim_read_registers_ok:
  assumes "movement_duration s \<noteq> 0"
  shows "fst (sim_read_registers reg n (s, w)) =
     Inr (map (\<lambda>i. case registers (fst (snd (update_movement (s, w)))) (reg + int i) of
                      Some v \<Rightarrow> v | None \<Rightarrow> 0) [0..<n])"
proof -
  obtain e s' w' where u: "update_movement (s, w) = (e, s', w')"
    by (cases "update_movement (s, w)") auto
  with update_movement_no_exn [OF assms, of w] have "e = None" by simp
  with u show ?thesis by (simp add: sim_read_registers_def)
qed

lemma sim_read_registers_one:
  assumes "movement_duration s \<noteq> 0"
    "registers (fst (snd (update_movement (s, w)))) reg = Some v"
  shows "fst (sim_read_registers reg 1 (s, w)) = Inr [v]"
  using sim_read_registers_ok [OF assms(1), of reg 1 w] assms(2) by simp

lemma write_force_state:
  "sim_write_register REG_TARGET_FORCE f (s, w) =
     update_movement (s\<lparr>target_force := max 0 (min 1000 f),
                        registers := (registers s)(REG_TARGET_FORCE \<mapsto> f)\<rparr>, w)"
  by (simp add: sim_write_register_def)

lemma write_diameter_state:
  "sim_write_register REG_TARGET_DIAMETER d (s, w) =
     update_movement
       (s\<lparr>target_diameter := max (min_diameter s) (min (max_diameter s) d),
          registers := (registers s)(REG_TARGET_DIAMETER \<mapsto> d)\<rparr>, w)"
  by (simp add: sim_write_register_def)

lemma force_register_read_back:
  assumes "movement_duration s \<noteq> 0"
  shows "fst (sim_read_registers REG_TARGET_FORCE 1
            (snd (sim_write_register REG_TARGET_FORCE f (s, w)))) = Inr [f]"
    and "target_force (fst (snd (sim_write_register REG_TARGET_FORCE f (s, w)))) =
           max 0 (min 1000 f)"
proof -
  let ?s1 = "s\<lparr>target_force := max 0 (min 1000 f),
                 registers := (registers s)(REG_TARGET_FORCE \<mapsto> f)\<rparr>"
  obtain s2 w2 where r: "snd (update_movement (?s1, w)) = (s2, w2)"
    by (cases "snd (update_movement (?s1, w))") auto
  have d2: "movement_duration s2 \<noteq> 0"
    using update_movement_keeps(7) [of ?s1 w] r assms by simp
  have "registers s2 REG_TARGET_FORCE = Some f"
    using update_movement_registers_other [of REG_TARGET_FORCE ?s1 w] r by simp
  then have "registers (fst (snd (update_movement (s2, w2)))) REG_TARGET_FORCE = Some f"
    using update_movement_registers_other [of REG_TARGET_FORCE s2 w2] by simp
  from sim_read_registers_one [OF d2 this] r
  show "fst (sim_read_registers REG_TARGET_FORCE 1
            (snd (sim_write_register REG_TARGET_FORCE f (s, w)))) = Inr [f]"
    by (simp add: write_force_state)
  show "target_force (fst (snd (sim_write_register REG_TARGET_FORCE f (s, w)))) =
           max 0 (min 1000 f)"
    by (simp add: write_force_state)
qed

lemma diameter_register_read_back:
  assumes "movement_duration s \<noteq> 0"
  shows "fst (sim_read_registers REG_TARGET_DIAMETER 1
            (snd (sim_write_register REG_TARGET_DIAMETER d (s, w)))) = Inr [d]"
    and "target_diameter (fst (snd (sim_write_register REG_TARGET_DIAMETER d (s, w)))) =
           max (min_diameter s) (min (max_diameter s) d)"
proof -
  let ?s1 = "s\<lparr>target_diameter := max (min_diameter s) (min (max_diameter s) d),
                 registers := (registers s)(REG_TARGET_DIAMETER \<mapsto> d)\<rparr>"
  obtain s2 w2 where r: "snd (update_movement (?s1, w)) = (s2, w2)"
    by (cases "snd (update_movement (?s1, w))") auto
  have d2: "movement_duration s2 \<noteq> 0"
    using update_movement_keeps(7) [of ?s1 w] r assms by simp
  have "registers s2 REG_TARGET_DIAMETER = Some d"
    using update_movement_registers_other [of REG_TARGET_DIAMETER ?s1 w] r by simp
  then have "registers (fst (snd (update_movement (s2, w2)))) REG_TARGET_DIAMETER = Some d"
    using update_movement_registers_other [of REG_TARGET_DIAMETER s2 w2] by simp
  from sim_read_registers_one [OF d2 this] r
  show "fst (sim_read_registers REG_TARGET_DIAMETER 1
            (snd (sim_write_register REG_TARGET_DIAMETER d (s, w)))) = Inr [d]"
    by (simp add: write_diameter_state)
  show "target_diameter (fst (snd (sim_write_register REG_TARGET_DIAMETER d (s, w)))) =
           max (min_diameter s) (min (max_diameter s) d)"
    by (simp add: write_diameter_state)
qed

lemma ThreeFG15Simulator_fields [simp]:
  "min_diameter (ThreeFG15Simulator mn mx fl sp nz) = mn"
  "max_diameter (ThreeFG15Simulator mn mx fl sp nz) = mx"
  "finger_length (ThreeFG15Simulator mn mx fl sp nz) = fl"
  "simulation_speed (ThreeFG15Simulator mn mx fl sp nz) = sp"
  "enable_noise (ThreeFG15Simulator mn mx fl sp nz) = nz"
  "current_diameter (ThreeFG15Simulator mn mx fl sp nz) = mx"
  "target_diameter (ThreeFG15Simulator mn mx fl sp nz) = mx"
  "current_force (ThreeFG15Simulator mn mx fl sp nz) = 0"
  "target_force (ThreeFG15Simulator mn mx fl sp nz) = 500"
  "grip_type (ThreeFG15Simulator mn mx fl sp nz) = EXTERNAL"
  "is_busy (ThreeFG15Simulator mn mx fl sp nz) = False"
  "sim_grip_detected (ThreeFG15Simulator mn mx fl sp nz) = False"
  "sim_force_grip_detected (ThreeFG15Simulator mn mx fl sp nz) = False"
  "sim_calibration_ok (ThreeFG15Simulator mn mx fl sp nz) = True"
  "movement_start_time (ThreeFG15Simulator mn mx fl sp nz) = None"
  "movement_duration (ThreeFG15Simulator mn mx fl sp nz) = 1 / 2"
  by (simp_all add: ThreeFG15Simulator_def initialize_registers_def)

lemma ThreeFG15Simulator_registers:
  "registers (ThreeFG15Simulator mn mx fl sp nz) =
     [REG_TARGET_FORCE \<mapsto> 500, REG_TARGET_DIAMETER \<mapsto> mx, REG_GRIP_TYPE \<mapsto> 0,
      REG_CONTROL \<mapsto> 0, REG_STATUS \<mapsto> 8, REG_RAW_DIAMETER \<mapsto> mx,
      REG_DIAMETER_OFFSET \<mapsto> mx, REG_FORCE_APPLIED \<mapsto> 0, REG_FINGER_LENGTH \<mapsto> fl,
      REG_FINGER_POSITION \<mapsto> 1, REG_FINGERTIP_OFFSET \<mapsto> 0, REG_MIN_DIAMETER \<mapsto> mn,
      REG_MAX_DIAMETER \<mapsto> mx]"
  by (simp add: ThreeFG15Simulator_def initialize_registers_def calculate_status_register_def)

text \<open>
  Claim C2, as the code has it.  A write of \<open>f\<close> to the target-force register sets the
  engine's target force to \<open>f\<close> clamped to 0..1000, and a write of \<open>d\<close> to the
  target-diameter register sets the target diameter to \<open>d\<close> clamped to the engine's
  minimum and maximum diameter; the register table keeps the written value, so the read
  that follows returns \<open>f\<close> (or \<open>d\<close>) itself, which is the clamped value exactly when
  the written value was in range.  As stated (the read returns the clamped value) the
  claim fails: 1500 written to the force register reads back as 1500, not 1000.
\<close>

theorem target_registers_read_back:
  assumes "movement_duration s \<noteq> 0"
  shows "fst (sim_read_registers REG_TARGET_FORCE 1
            (snd (sim_write_register REG_TARGET_FORCE f (s, w)))) = Inr [f] \<and>
         target_force (fst (snd (sim_write_register REG_TARGET_FORCE f (s, w)))) =
           max 0 (min 1000 f) \<and>
         fst (sim_read_registers REG_TARGET_DIAMETER 1
            (snd (sim_write_register REG_TARGET_DIAMETER d (s, w)))) = Inr [d] \<and>
         target_diameter (fst (snd (sim_write_register REG_TARGET_DIAMETER d (s, w)))) =
           max (min_diameter s) (min (max_diameter s) d)"
  using force_register_read_back [OF assms] diameter_register_read_back [OF assms] by simp

theorem target_registers_read_back_witness:
  "fst (sim_read_registers REG_TARGET_FORCE 1
          (snd (sim_write_register REG_TARGET_FORCE (- 100)
             (ThreeFG15Simulator 0 1000 500 1 True, ticking_world 1)))) = Inr [- 100] \<and>
   target_force (fst (snd (sim_write_register REG_TARGET_FORCE (- 100)
             (ThreeFG15Simulator 0 1000 500 1 True, ticking_world 1)))) = 0 \<and>
   fst (sim_read_registers REG_TARGET_DIAMETER 1
          (snd (sim_write_register REG_TARGET_DIAMETER 400
             (ThreeFG15Simulator 0 1000 500 1 True, ticking_world 1)))) = Inr [400] \<and>
   target_diameter (fst (snd (sim_write_register REG_TARGET_DIAMETER 400
             (ThreeFG15Simulator 0 1000 500 1 True, ticking_world 1)))) = 400"
  using target_registers_read_back [of "ThreeFG15Simulator 0 1000 500 1 True" "- 100"
      "ticking_world 1" 400]
  by simp

theorem force_register_not_clamped:
  "fst (sim_read_registers REG_TARGET_FORCE 1
          (snd (sim_write_register REG_TARGET_FORCE 1500
             (ThreeFG15Simulator 0 1000 500 1 True, ticking_world 1)))) \<noteq>
     Inr [max 0 (min 1000 1500)]"
  using force_register_read_back(1) [of "ThreeFG15Simulator 0 1000 500 1 True" 1500
      "ticking_world 1"]
  by simp

lemma snd_except_RuntimeError [simp]: "snd (except_RuntimeError r) = snd r"
  by (cases r) (auto simp add: except_RuntimeError_def split: option.splits exn.splits)

lemma update_movement_settles:
  assumes "is_busy s \<or> settled s"
  shows "is_busy (fst (snd (update_movement (s, w)))) \<or>
         settled (fst (snd (update_movement (s, w))))"
proof (cases "is_busy s")
  case False
  with assms show ?thesis by (simp add: update_movement_idle)
next
  case True
  show ?thesis
  proof (cases "is_busy (fst (snd (update_movement (s, w))))")
    case False
    from update_movement_completes [OF False True] show ?thesis
      by (simp add: settled_def)
  qed simp
qed

lemma update_movement_keeps_pair [simp]:
  "target_force (fst (snd (update_movement sw))) = target_force (fst sw)"
  "target_diameter (fst (snd (update_movement sw))) = target_diameter (fst sw)"
  "max_diameter (fst (snd (update_movement sw))) = max_diameter (fst sw)"
  "movement_duration (fst (snd (update_movement sw))) = movement_duration (fst sw)"
  "enable_noise (fst (snd (update_movement sw))) = enable_noise (fst sw)"
  "clock (snd (snd (update_movement sw))) = clock (snd sw)"
  by (cases sw, simp)+

lemma update_movement_settles_pair:
  "is_busy (fst sw) \<or> settled (fst sw) \<Longrightarrow>
   is_busy (fst (snd (update_movement sw))) \<or> settled (fst (snd (update_movement sw)))"
  using update_movement_settles [of "fst sw" "snd sw"] by simp

lemma update_steps_keeps [simp]:
  "target_force (fst (update_steps n sw)) = target_force (fst sw)"
  "target_diameter (fst (update_steps n sw)) = target_diameter (fst sw)"
  "max_diameter (fst (update_steps n sw)) = max_diameter (fst sw)"
  by (induction n arbitrary: sw) simp_all

lemma update_steps_settles:
  "is_busy (fst sw) \<or> settled (fst sw) \<Longrightarrow>
   is_busy (fst (update_steps n sw)) \<or> settled (fst (update_steps n sw))"
proof (induction n arbitrary: sw)
  case 0
  then show ?case by simp
next
  case (Suc n)
  from Suc.IH [OF update_movement_settles_pair [OF Suc.prems]] show ?case by simp
qed

lemma update_steps_idle: "\<not> is_busy s \<Longrightarrow> update_steps n (s, w) = (s, w)"
  by (induction n) (simp_all add: update_movement_idle)

text \<open>What \<open>close_gripper\<close> does to a simulator fresh from its constructor.\<close>

lemma close_gripper_fresh:
  "snd (close_gripper simulator f (ThreeFG15Simulator mn mx fl sp nz, w)) =
     (let s3 = (ThreeFG15Simulator mn mx fl sp nz)
            \<lparr>target_force := max 0 (min 1000 f),
             target_diameter := max mn (min mx mn),
             grip_type := EXTERNAL,
             is_busy := True,
             movement_start_time := Some (clock w (clock_reads w)),
             registers := (registers (ThreeFG15Simulator mn mx fl sp nz))
               (REG_TARGET_FORCE \<mapsto> f, REG_TARGET_DIAMETER \<mapsto> mn, REG_GRIP_TYPE \<mapsto> 0)\<rparr>;
          w1 = w\<lparr>clock_reads := Suc (clock_reads w)\<rparr>
      in if sp = 0 then (s3, w1)
         else snd (update_movement
                (s3\<lparr>movement_duration := (1 / 2) / sp,
                    registers := (registers s3)(REG_CONTROL \<mapsto> CMD_GRIP)\<rparr>, w1)))"
  by (simp add: close_gripper_def simulator_def sim_read_registers_def update_movement_idle
      ThreeFG15Simulator_registers and_then_def set_target_force_def set_target_diameter_def
      set_grip_type_def set_control_def sim_write_register_def GripType_value_def
      GripType_of_def start_movement_def time_time_def Let_def)


lemma close_gripper_targets:
  "target_force (fst (snd (close_gripper simulator f (ThreeFG15Simulator mn mx fl sp nz, w)))) =
     max 0 (min 1000 f)"
  "target_diameter (fst (snd (close_gripper simulator f (ThreeFG15Simulator mn mx fl sp nz, w)))) =
     max mn (min mx mn)"
  "max_diameter (fst (snd (close_gripper simulator f (ThreeFG15Simulator mn mx fl sp nz, w)))) = mx"
  by (simp_all add: close_gripper_fresh Let_def)

lemma close_gripper_settles:
  "is_busy (fst (snd (close_gripper simulator f (ThreeFG15Simulator mn mx fl sp nz, w)))) \<or>
   settled (fst (snd (close_gripper simulator f (ThreeFG15Simulator mn mx fl sp nz, w))))"
proof (cases "sp = 0")
  case True
  then show ?thesis by (simp add: close_gripper_fresh Let_def)
next
  case False
  then show ?thesis
    by (simp add: close_gripper_fresh Let_def update_movement_settles)
qed

lemma add_noise_clock_reads [simp]: "clock_reads (snd (add_noise s v p w)) = clock_reads w"
  by (simp add: add_noise_def random_uniform_def split_def)

lemma publish_registers_clock_reads [simp]:
  "clock_reads (snd (publish_registers (s, w))) = clock_reads w"
  by (simp add: publish_registers_def split_def Let_def)

text \<open>
  One update step of a busy engine: it completes the movement when the clock has reached
  the end of the movement, and otherwise stays busy in the same movement.
\<close>

lemma busy_update_step:
  assumes "is_busy s" "movement_start_time s = Some t0" "0 < movement_duration s"
  shows "(t0 + movement_duration s \<le> clock w (clock_reads w) \<longrightarrow>
            \<not> is_busy (fst (snd (update_movement (s, w))))) \<and>
         (\<not> t0 + movement_duration s \<le> clock w (clock_reads w) \<longrightarrow>
            is_busy (fst (snd (update_movement (s, w)))) \<and>
            movement_start_time (fst (snd (update_movement (s, w)))) = Some t0) \<and>
         clock_reads (snd (snd (update_movement (s, w)))) = Suc (clock_reads w)"
proof -
  from assms(3) have nz: "movement_duration s \<noteq> 0" by simp
  have "(1 \<le> (clock w (clock_reads w) - t0) / movement_duration s) =
        (t0 + movement_duration s \<le> clock w (clock_reads w))"
    using assms(3) by (simp add: le_divide_eq algebra_simps)
  then show ?thesis
    using assms(1,2) by (simp add: update_movement_busy [OF assms(1,2) nz] Let_def)
qed

lemma busy_update_steps_finish:
  assumes "is_busy s" "movement_start_time s = Some t0" "0 < movement_duration s"
    "clock_reads w \<le> k" "t0 + movement_duration s \<le> clock w k"
  shows "\<not> is_busy (fst (update_steps (Suc (k - clock_reads w)) (s, w)))"
  using assms
proof (induction "k - clock_reads w" arbitrary: s w)
  case 0
  then have "k = clock_reads w" by simp
  with busy_update_step [OF "0.prems"(1,2,3), of w] "0.prems"(5) show ?case by simp
next
  case (Suc m)
  let ?sw = "snd (update_movement (s, w))"
  note step = busy_update_step [OF Suc.prems(1,2,3), of w]
  show ?case
  proof (cases "is_busy (fst ?sw)")
    case False
    then have "update_steps (k - clock_reads w) ?sw = ?sw"
      using update_steps_idle [of "fst ?sw" _ "snd ?sw"] by simp
    with False show ?thesis by simp
  next
    case True
    with step have st: "movement_start_time (fst ?sw) = Some t0" by blast
    from step have rd: "clock_reads (snd ?sw) = Suc (clock_reads w)" by simp
    have m: "m = k - clock_reads (snd ?sw)" using Suc.hyps(2) rd by simp
    have le: "clock_reads (snd ?sw) \<le> k" using Suc.hyps(2) rd by simp
    have "\<not> is_busy (fst (update_steps (Suc (k - clock_reads (snd ?sw))) (fst ?sw, snd ?sw)))"
      using Suc.hyps(1) [OF m True st _ le] Suc.prems(3,5) by simp
    moreover have "Suc (k - clock_reads (snd ?sw)) = k - clock_reads w"
      using Suc.hyps(2) rd by simp
    ultimately show ?thesis by simp
  qed
qed

lemma close_gripper_finishes:
  assumes "0 < sp" "clock_reads w < k" "clock w (clock_reads w) + 1 / (2 * sp) \<le> clock w k"
  shows "\<not> is_busy (fst (update_steps (k - Suc (clock_reads w))
            (snd (close_gripper simulator f (ThreeFG15Simulator mn mx fl sp nz, w)))))"
proof -
  let ?s = "(ThreeFG15Simulator mn mx fl sp nz)
            \<lparr>target_force := max 0 (min 1000 f),
             target_diameter := max mn (min mx mn),
             grip_type := EXTERNAL,
             is_busy := True,
             movement_start_time := Some (clock w (clock_reads w)),
             registers := (registers (ThreeFG15Simulator mn mx fl sp nz))
               (REG_TARGET_FORCE \<mapsto> f, REG_TARGET_DIAMETER \<mapsto> mn, REG_GRIP_TYPE \<mapsto> 0),
             movement_duration := (1 / 2) / sp,
             registers := (registers (ThreeFG15Simulator mn mx fl sp nz))
               (REG_TARGET_FORCE \<mapsto> f, REG_TARGET_DIAMETER \<mapsto> mn, REG_GRIP_TYPE \<mapsto> 0,
                REG_CONTROL \<mapsto> CMD_GRIP)\<rparr>"
  let ?w = "w\<lparr>clock_reads := Suc (clock_reads w)\<rparr>"
  have eq: "snd (close_gripper simulator f (ThreeFG15Simulator mn mx fl sp nz, w)) =
      snd (update_movement (?s, ?w))"
    using assms(1) by (simp add: close_gripper_fresh Let_def)
  have "\<not> is_busy (fst (update_steps (Suc (k - clock_reads ?w)) (?s, ?w)))"
  proof (rule busy_update_steps_finish)
    show "is_busy ?s" by simp
    show "movement_start_time ?s = Some (clock w (clock_reads w))" by simp
    show "0 < movement_duration ?s" using assms(1) by simp
    show "clock_reads ?w \<le> k" using assms(2) by simp
    show "clock w (clock_reads w) + movement_duration ?s \<le> clock ?w k"
      using assms(3) by (simp add: field_simps)
  qed
  moreover have "Suc (k - clock_reads ?w) = Suc (k - Suc (clock_reads w))" by simp
  ultimately show ?thesis by (simp add: eq)
qed

lemma ticking_world_fields [simp]:
  "clock (ticking_world dt) k = of_nat k * dt" "clock_reads (ticking_world dt) = 0"
  "rng (ticking_world dt) k = 1 / 2" "rng_reads (ticking_world dt) = 0"
  by (simp_all add: ticking_world_def)

lemma close_gripper_700_settled:
  assumes "\<not> is_busy (fst (update_steps n
      (snd (close_gripper simulator 700 (ThreeFG15Simulator 0 1000 fl sp nz, w)))))"
  shows "current_diameter (fst (update_steps n
      (snd (close_gripper simulator 700 (ThreeFG15Simulator 0 1000 fl sp nz, w))))) = 0 \<and>
    current_force (fst (update_steps n
      (snd (close_gripper simulator 700 (ThreeFG15Simulator 0 1000 fl sp nz, w))))) = 700 \<and>
    sim_grip_detected (fst (update_steps n
      (snd (close_gripper simulator 700 (ThreeFG15Simulator 0 1000 fl sp nz, w))))) \<and>
    sim_force_grip_detected (fst (update_steps n
      (snd (close_gripper simulator 700 (ThreeFG15Simulator 0 1000 fl sp nz, w)))))"
proof -
  let ?sw = "snd (close_gripper simulator 700 (ThreeFG15Simulator 0 1000 fl sp nz, w))"
  from update_steps_settles [OF close_gripper_settles, of n 700 0 1000 fl sp nz w] assms
  have "settled (fst (update_steps n ?sw))" by simp
  then show ?thesis
    by (simp add: settled_def close_gripper_targets)
qed

lemma strict_force_threshold:
  "((of_int F :: rat) * (8 / 10) < of_int F) = (0 < F)"
proof -
  have "((of_int F :: rat) * (8 / 10) < of_int F) = (0 < (of_int F :: rat))" by linarith
  then show ?thesis by simp
qed

lemma close_gripper_any_settled:
  assumes "\<not> is_busy (fst (update_steps n
      (snd (close_gripper simulator f (ThreeFG15Simulator 0 1000 fl sp nz, w)))))"
  shows "current_diameter (fst (update_steps n
      (snd (close_gripper simulator f (ThreeFG15Simulator 0 1000 fl sp nz, w))))) = 0"
    and "current_force (fst (update_steps n
      (snd (close_gripper simulator f (ThreeFG15Simulator 0 1000 fl sp nz, w))))) =
        max 0 (min 1000 f)"
    and "target_force (fst (update_steps n
      (snd (close_gripper simulator f (ThreeFG15Simulator 0 1000 fl sp nz, w))))) =
        max 0 (min 1000 f)"
    and "sim_grip_detected (fst (update_steps n
      (snd (close_gripper simulator f (ThreeFG15Simulator 0 1000 fl sp nz, w)))))"
    and "sim_force_grip_detected (fst (update_steps n
      (snd (close_gripper simulator f (ThreeFG15Simulator 0 1000 fl sp nz, w))))) =
        ((of_int (max 0 (min 1000 f)) * (8 / 10) :: rat) < of_int (max 0 (min 1000 f)))"
proof -
  let ?sw = "snd (close_gripper simulator f (ThreeFG15Simulator 0 1000 fl sp nz, w))"
  from update_steps_settles [OF close_gripper_settles, of n f 0 1000 fl sp nz w] assms
  have st: "settled (fst (update_steps n ?sw))" by simp
  from st show "current_diameter (fst (update_steps n ?sw)) = 0"
    by (simp add: settled_def close_gripper_targets)
  from st show "current_force (fst (update_steps n ?sw)) = max 0 (min 1000 f)"
    by (simp add: settled_def close_gripper_targets)
  show "target_force (fst (update_steps n ?sw)) = max 0 (min 1000 f)"
    by (simp add: close_gripper_targets)
  from st show "sim_grip_detected (fst (update_steps n ?sw))"
    by (simp add: settled_def close_gripper_targets)
  from st show "sim_force_grip_detected (fst (update_steps n ?sw)) =
        ((of_int (max 0 (min 1000 f)) * (8 / 10) :: rat) < of_int (max 0 (min 1000 f)))"
    by (simp add: settled_def close_gripper_targets)
qed


text \<open>
  Claim C1, as the code has it.  Take the simulated engine constructed with minimum
  diameter 0 and maximum diameter 1000 (any finger length, speed and noise setting), call
  \<open>close_gripper\<close> with a force \<open>f\<close> and run any number of update steps.  Whenever the
  engine is then no longer busy, its diameter is 0, its force is \<open>f\<close> clamped to 0..1000,
  \<open>grip_detected\<close> is true, and \<open>force_grip_detected\<close> is the strict comparison
  \<open>current_force > 0.8 * target_force\<close> of that force with 0.8 times itself: true
  exactly when the force is positive.  At force 700 the comparison is 700 > 560 and the
  flag is true; at force 0 it is 0 > 0 and the flag is false, which a non-strict
  comparison would not give.  With a positive speed the engine does stop being busy: it
  is idle after the update step that reads the clock at or past the end of the movement.
  As stated (\<open>force_grip_detected\<close> false at force 700) the claim fails.
\<close>

theorem close_gripper_final_state:
  assumes "S = fst (update_steps n
      (snd (close_gripper simulator f (ThreeFG15Simulator 0 1000 fl sp nz, w))))"
  shows "(\<not> is_busy S \<longrightarrow>
            current_diameter S = 0 \<and> current_force S = max 0 (min 1000 f) \<and>
            sim_grip_detected S \<and>
            sim_force_grip_detected S =
              ((of_int (target_force S) * (8 / 10) :: rat) < of_int (current_force S)) \<and>
            sim_force_grip_detected S = (0 < f)) \<and>
         (\<not> is_busy S \<and> f = 700 \<longrightarrow>
            current_diameter S = 0 \<and> current_force S = 700 \<and> sim_grip_detected S \<and>
            sim_force_grip_detected S) \<and>
         (\<not> is_busy S \<and> f = 0 \<longrightarrow>
            current_diameter S = 0 \<and> current_force S = 0 \<and> sim_grip_detected S \<and>
            \<not> sim_force_grip_detected S) \<and>
         (0 < sp \<and> clock_reads w < k \<and> clock w (clock_reads w) + 1 / (2 * sp) \<le> clock w k \<longrightarrow>
            \<not> is_busy (fst (update_steps (k - Suc (clock_reads w))
              (snd (close_gripper simulator f (ThreeFG15Simulator 0 1000 fl sp nz, w))))))"
proof -
  have pos: "(0 < max 0 (min 1000 f)) = (0 < f)" by auto
  have gen: "current_diameter S = 0 \<and> current_force S = max 0 (min 1000 f) \<and>
            sim_grip_detected S \<and>
            sim_force_grip_detected S =
              ((of_int (target_force S) * (8 / 10) :: rat) < of_int (current_force S)) \<and>
            sim_force_grip_detected S = (0 < f)" if "\<not> is_busy S"
    using close_gripper_any_settled [of n f fl sp nz w] that
    unfolding assms by (simp add: strict_force_threshold pos)
  have live: "0 < sp \<and> clock_reads w < k \<and>
      clock w (clock_reads w) + 1 / (2 * sp) \<le> clock w k \<longrightarrow>
      \<not> is_busy (fst (update_steps (k - Suc (clock_reads w))
        (snd (close_gripper simulator f (ThreeFG15Simulator 0 1000 fl sp nz, w)))))"
    using close_gripper_finishes [of sp w k f 0 1000 fl nz] by blast
  from gen live show ?thesis by auto
qed


theorem close_gripper_final_state_witness:
  "\<not> is_busy (fst (update_steps 1
        (snd (close_gripper simulator 700
           (ThreeFG15Simulator 0 1000 500 1 True, ticking_world (1 / 4)))))) \<and>
   current_diameter (fst (update_steps 1
        (snd (close_gripper simulator 700
           (ThreeFG15Simulator 0 1000 500 1 True, ticking_world (1 / 4)))))) = 0 \<and>
   current_force (fst (update_steps 1
        (snd (close_gripper simulator 700
           (ThreeFG15Simulator 0 1000 500 1 True, ticking_world (1 / 4)))))) = 700 \<and>
   sim_grip_detected (fst (update_steps 1
        (snd (close_gripper simulator 700
           (ThreeFG15Simulator 0 1000 500 1 True, ticking_world (1 / 4)))))) \<and>
   \<not> is_busy (fst (update_steps 1
        (snd (close_gripper simulator 0
           (ThreeFG15Simulator 0 1000 500 1 True, ticking_world (1 / 4)))))) \<and>
   current_force (fst (update_steps 1
        (snd (close_gripper simulator 0
           (ThreeFG15Simulator 0 1000 500 1 True, ticking_world (1 / 4)))))) = 0 \<and>
   sim_force_grip_detected (fst (update_steps 1
        (snd (close_gripper simulator 0
           (ThreeFG15Simulator 0 1000 500 1 True, ticking_world (1 / 4)))))) = False"
proof -
  let ?A = "fst (update_steps 1 (snd (close_gripper simulator 700
           (ThreeFG15Simulator 0 1000 500 1 True, ticking_world (1 / 4)))))"
  let ?B = "fst (update_steps 1 (snd (close_gripper simulator 0
           (ThreeFG15Simulator 0 1000 500 1 True, ticking_world (1 / 4)))))"
  have one: "2 - Suc (clock_reads (ticking_world (1 / 4))) = 1" by simp
  have pre: "0 < (1::rat) \<and> clock_reads (ticking_world (1 / 4)) < 2 \<and>
      clock (ticking_world (1 / 4)) (clock_reads (ticking_world (1 / 4))) + 1 / (2 * 1)
        \<le> clock (ticking_world (1 / 4)) 2" by simp
  note ta = close_gripper_final_state [where n = 1 and f = 700 and fl = 500 and sp = 1
      and nz = True and w = "ticking_world (1 / 4)" and k = 2, OF refl]
  note tb = close_gripper_final_state [where n = 1 and f = 0 and fl = 500 and sp = 1
      and nz = True and w = "ticking_world (1 / 4)" and k = 2, OF refl]
  from ta pre have ia: "\<not> is_busy ?A" unfolding one by blast
  from tb pre have ib: "\<not> is_busy ?B" unfolding one by blast
  from ta ia have a: "current_diameter ?A = 0 \<and> current_force ?A = 700 \<and> sim_grip_detected ?A"
    by blast
  from tb ib have b: "current_force ?B = 0 \<and> \<not> sim_force_grip_detected ?B" by blast
  from ia ib a b show ?thesis by blast
qed

theorem close_gripper_force_grip_detected:
  "\<not> is_busy (fst (update_steps 1
        (snd (close_gripper simulator 700
           (ThreeFG15Simulator 0 1000 500 1 True, ticking_world (1 / 4)))))) \<and>
   sim_force_grip_detected (fst (update_steps 1
        (snd (close_gripper simulator 700
           (ThreeFG15Simulator 0 1000 500 1 True, ticking_world (1 / 4)))))) \<noteq> False"
proof -
  have "\<not> is_busy (fst (update_steps (2 - Suc (clock_reads (ticking_world (1 / 4))))
        (snd (close_gripper simulator 700
           (ThreeFG15Simulator 0 1000 500 1 True, ticking_world (1 / 4))))))"
    by (rule close_gripper_finishes) simp_all
  then have idle: "\<not> is_busy (fst (update_steps 1
        (snd (close_gripper simulator 700
           (ThreeFG15Simulator 0 1000 500 1 True, ticking_world (1 / 4))))))"
    by (simp add: numeral_2_eq_2)
  from close_gripper_700_settled [OF idle] idle show ?thesis by simp
qed

text \<open>
  Claim C4 asks that every update step of a movement interpolates from the diameter the
  engine had when the movement started.  The code takes \<open>start_diameter\<close> from the
  raw-diameter register, and each update step writes the diameter it has just computed
  into that register, so the next step starts from there.  The run below closes a fully
  open engine (1000 to 0, duration 0.5 s, noise off) with the clock read every 0.125 s:
  the step at 0.125 s gives 875, as the specification's formula does; the step at 0.25 s
  gives 438, where the formula from the fixed start 1000 gives 500.
\<close>

lemma ceiling_neg_half: "\<lceil>- (875 / 2 :: rat)\<rceil> = - 437"
  by (simp add: ceiling_def floor_eq_iff)

theorem update_step_restarts_from_register:
  "current_diameter (fst (snd (close_gripper simulator 700
       (ThreeFG15Simulator 0 1000 500 1 False, ticking_world (1 / 8))))) = 875 \<and>
   is_busy (fst (snd (close_gripper simulator 700
       (ThreeFG15Simulator 0 1000 500 1 False, ticking_world (1 / 8))))) \<and>
   current_diameter (fst (snd (update_movement (snd (close_gripper simulator 700
       (ThreeFG15Simulator 0 1000 500 1 False, ticking_world (1 / 8))))))) = 438 \<and>
   spec_interpolated_diameter 1000 0 (1 / 8) (1 / 2) = 875 \<and>
   spec_interpolated_diameter 1000 0 (2 / 8) (1 / 2) = 500"
  apply (simp add: close_gripper_fresh Let_def update_movement_busy ThreeFG15Simulator_registers
      publish_registers_quiet interpolate_def ease_in_out_def py_int_def spec_interpolated_diameter_def
      complete_movement_def calculate_status_register_def ceiling_neg_half)
  done

theorem update_step_restarts_from_register_witness:
  "of_int (current_diameter (fst (snd (update_movement (snd (close_gripper simulator 700
       (ThreeFG15Simulator 0 1000 500 1 False, ticking_world (1 / 8)))))))) \<noteq>
   spec_interpolated_diameter 1000 0 (2 / 8) (1 / 2)"
  using update_step_restarts_from_register by simp

lemma update_movement_quiet:
  assumes "quiet s"
  shows "quiet (fst (snd (update_movement (s, w))))"
proof (cases "is_busy s \<and> movement_start_time s \<noteq> None")
  case False
  then have "update_movement (s, w) = (None, s, w)"
    by (auto simp add: update_movement_idle update_movement_no_start)
  with assms show ?thesis by simp
next
  case True
  then obtain t0 where t0: "movement_start_time s = Some t0" by auto
  from assms have nz: "movement_duration s \<noteq> 0" and nn: "\<not> enable_noise s"
    by (simp_all add: quiet_def)
  show ?thesis
    using nn nz True
    by (simp add: update_movement_busy [OF _ t0 nz] Let_def publish_registers_quiet
        quiet_def telemetry_in_sync_def)
qed

lemma update_movement_quiet_pair: "quiet (fst sw) \<Longrightarrow> quiet (fst (snd (update_movement sw)))"
  using update_movement_quiet [of "fst sw" "snd sw"] by simp

lemma sim_read_registers_state: "snd (sim_read_registers reg n sw) = snd (update_movement sw)"
  by (cases "update_movement sw" rule: prod_cases3)
    (auto simp add: sim_read_registers_def split: option.splits)

lemma sim_read_registers_quiet:
  "quiet (fst sw) \<Longrightarrow> quiet (fst (snd (sim_read_registers reg n sw)))"
  by (simp add: sim_read_registers_state update_movement_quiet_pair)

lemma quiet_update:
  "quiet s \<Longrightarrow> reg \<notin> {REG_RAW_DIAMETER, REG_DIAMETER_OFFSET, REG_FORCE_APPLIED} \<Longrightarrow>
   quiet (s\<lparr>registers := (registers s)(reg \<mapsto> v)\<rparr>)"
  by (auto simp add: quiet_def telemetry_in_sync_def)

lemma sim_write_register_quiet:
  assumes "quiet s" "reg \<notin> {REG_RAW_DIAMETER, REG_DIAMETER_OFFSET, REG_FORCE_APPLIED}"
  shows "quiet (fst (snd (sim_write_register reg v (s, w))))"
proof -
  have q: "\<And>s' w'. quiet s' \<Longrightarrow>
      quiet (fst (snd (update_movement (s'\<lparr>registers := (registers s')(reg \<mapsto> v)\<rparr>, w'))))"
    using assms(2) by (intro update_movement_quiet quiet_update) simp_all
  have q1: "quiet (s\<lparr>target_force := x\<rparr>)" for x
    using assms(1) by (simp add: quiet_def telemetry_in_sync_def)
  have q2: "quiet (s\<lparr>target_diameter := x\<rparr>)" for x
    using assms(1) by (simp add: quiet_def telemetry_in_sync_def)
  have q3: "quiet (s\<lparr>grip_type := x\<rparr>)" for x
    using assms(1) by (simp add: quiet_def telemetry_in_sync_def)
  have q4: "quiet (s\<lparr>is_busy := b, movement_start_time := x\<rparr>)" for b x
    using assms(1) by (simp add: quiet_def telemetry_in_sync_def)
  have q5: "simulation_speed s \<noteq> 0 \<Longrightarrow>
      quiet (s\<lparr>is_busy := b, movement_start_time := x,
               movement_duration := 1 / 2 / simulation_speed s\<rparr>)" for b x
    using assms(1) by (simp add: quiet_def telemetry_in_sync_def)
  consider (force) "reg = REG_TARGET_FORCE" | (diam) "reg = REG_TARGET_DIAMETER"
    | (gt) "reg = REG_GRIP_TYPE" | (ctl) "reg = REG_CONTROL"
    | (other) "reg \<noteq> REG_TARGET_FORCE" "reg \<noteq> REG_TARGET_DIAMETER"
        "reg \<noteq> REG_GRIP_TYPE" "reg \<noteq> REG_CONTROL"
    by blast
  then show ?thesis
  proof cases
    case force
    then show ?thesis using q [OF q1] by (simp add: sim_write_register_def)
  next
    case diam
    then show ?thesis using q [OF q2] by (simp add: sim_write_register_def)
  next
    case gt
    then show ?thesis using q [OF q3] assms(1)
      by (auto simp add: sim_write_register_def GripType_of_def)
  next
    case ctl
    show ?thesis
    proof (cases "v \<in> set [CMD_GRIP, CMD_MOVE, CMD_FLEXIBLE_GRIP]")
      case True
      show ?thesis
      proof (cases "simulation_speed s = 0")
        case True
        with \<open>v \<in> set [CMD_GRIP, CMD_MOVE, CMD_FLEXIBLE_GRIP]\<close> ctl q4 show ?thesis
          by (simp add: sim_write_register_def start_movement_def time_time_def Let_def)
      next
        case False
        with \<open>v \<in> set [CMD_GRIP, CMD_MOVE, CMD_FLEXIBLE_GRIP]\<close> ctl q [OF q5 [OF False]]
        show ?thesis
          by (simp add: sim_write_register_def start_movement_def time_time_def Let_def)
      qed
    next
      case False
      with ctl q [OF q4] q [OF assms(1)] show ?thesis
        by (auto simp add: sim_write_register_def)
    qed
  next
    case other
    then show ?thesis using q [OF assms(1)] by (simp add: sim_write_register_def)
  qed
qed

lemma run_calls_quiet:
  "quiet (fst sw) \<Longrightarrow> \<forall>c \<in> set calls. \<not> writes_telemetry c \<Longrightarrow>
   quiet (fst (run_calls calls sw))"
proof (induction calls arbitrary: sw)
  case Nil
  then show ?case by simp
next
  case (Cons c calls)
  show ?case
  proof (cases c)
    case (Write reg v)
    with Cons.prems(2) have "reg \<notin> {REG_RAW_DIAMETER, REG_DIAMETER_OFFSET, REG_FORCE_APPLIED}"
      by simp
    from sim_write_register_quiet [OF _ this, of "fst sw" v "snd sw"] Cons.prems(1)
    have "quiet (fst (snd (sim_write_register reg v sw)))" by simp
    from Cons.IH [OF this] Cons.prems(2) Write show ?thesis by simp
  next
    case (Read reg n)
    from Cons.IH [OF sim_read_registers_quiet [OF Cons.prems(1)]] Cons.prems(2) Read
    show ?thesis by simp
  qed
qed

lemma ThreeFG15Simulator_quiet: "quiet (ThreeFG15Simulator mn mx fl sp False)"
  by (simp add: quiet_def telemetry_in_sync_def ThreeFG15Simulator_registers)

lemma idle_read:
  "\<not> is_busy (fst sw) \<Longrightarrow>
   sim_read_registers reg n sw =
     (Inr (map (\<lambda>i. case registers (fst sw) (reg + int i) of Some v \<Rightarrow> v | None \<Rightarrow> 0) [0..<n]),
      sw)"
  by (cases sw) (simp add: sim_read_registers_def update_movement_idle)

lemma quiet_idle_reads:
  assumes "quiet (fst sw)" "\<not> is_busy (fst sw)"
  shows "sim_read_registers REG_RAW_DIAMETER 1 sw = (Inr [current_diameter (fst sw)], sw)"
    "sim_read_registers REG_DIAMETER_OFFSET 1 sw = (Inr [current_diameter (fst sw)], sw)"
    "sim_read_registers REG_FORCE_APPLIED 1 sw = (Inr [current_force (fst sw)], sw)"
  using assms by (simp_all add: idle_read quiet_def telemetry_in_sync_def)

lemma idle_telemetry_write:
  assumes "\<not> is_busy (fst sw)"
    "a \<in> {REG_RAW_DIAMETER, REG_DIAMETER_OFFSET, REG_FORCE_APPLIED}"
  shows "sim_write_register a v sw =
     (None, (fst sw)\<lparr>registers := (registers (fst sw))(a \<mapsto> v)\<rparr>, snd sw)"
proof -
  obtain s w where sw: "sw = (s, w)" by (cases sw)
  from assms(2) have ne: "a \<noteq> REG_TARGET_FORCE" "a \<noteq> REG_TARGET_DIAMETER"
    "a \<noteq> REG_GRIP_TYPE" "a \<noteq> REG_CONTROL" by auto
  from assms(1) have "\<not> is_busy (s\<lparr>registers := (registers s)(a \<mapsto> v)\<rparr>)"
    by (simp add: sw)
  then have "update_movement (s\<lparr>registers := (registers s)(a \<mapsto> v)\<rparr>, w) =
      (None, s\<lparr>registers := (registers s)(a \<mapsto> v)\<rparr>, w)"
    by (rule update_movement_idle)
  then show ?thesis using ne by (simp add: sw sim_write_register_def)
qed

lemma idle_telemetry_write_read:
  assumes "\<not> is_busy (fst sw)"
    "a \<in> {REG_RAW_DIAMETER, REG_DIAMETER_OFFSET, REG_FORCE_APPLIED}"
  shows "fst (sim_read_registers a 1 (snd (sim_write_register a v sw))) = Inr [v]"
    and "\<not> is_busy (fst (snd (sim_write_register a v sw)))"
    and "current_diameter (fst (snd (sim_write_register a v sw))) = current_diameter (fst sw)"
    and "current_force (fst (snd (sim_write_register a v sw))) = current_force (fst sw)"
  using assms(1) by (simp_all add: idle_telemetry_write [OF assms] idle_read)


text \<open>
  Claim C8, as the code has it.  Take a simulator constructed with noise disabled, let a
  client make any register calls, and let the engine then be not busy.  A read of any
  register leaves the simulator exactly as it was, so two reads of the same telemetry
  address (raw diameter 257, diameter with offset 258, force applied 259) return the same
  value, whatever the calls before were.  The value read is the engine's diameter (257,
  258) or force (259) provided none of the calls was a write to a telemetry register.
  \<open>write_register\<close> stores a written value under any address: a value written to a
  telemetry register while the engine is idle is read back from it, with the engine's
  diameter and force as before.  So the claim as stated fails: after 42 is written to
  register 257 the reads return 42 while the engine's diameter is 1000.
\<close>

theorem quiet_telemetry_reads:
  assumes "sw = run_calls calls (ThreeFG15Simulator mn mx fl sp False, w)"
    and "\<not> is_busy (fst sw)"
  shows "(\<forall>a n. snd (sim_read_registers a n sw) = sw \<and>
            fst (sim_read_registers a n (snd (sim_read_registers a n sw))) =
            fst (sim_read_registers a n sw)) \<and>
         ((\<forall>c \<in> set calls. \<not> writes_telemetry c) \<longrightarrow>
            sim_read_registers REG_RAW_DIAMETER 1 sw = (Inr [current_diameter (fst sw)], sw) \<and>
            sim_read_registers REG_DIAMETER_OFFSET 1 sw = (Inr [current_diameter (fst sw)], sw) \<and>
            sim_read_registers REG_FORCE_APPLIED 1 sw = (Inr [current_force (fst sw)], sw)) \<and>
         (\<forall>a v. a \<in> {REG_RAW_DIAMETER, REG_DIAMETER_OFFSET, REG_FORCE_APPLIED} \<longrightarrow>
            fst (sim_read_registers a 1 (snd (sim_write_register a v sw))) = Inr [v] \<and>
            \<not> is_busy (fst (snd (sim_write_register a v sw))) \<and>
            current_diameter (fst (snd (sim_write_register a v sw))) =
              current_diameter (fst sw) \<and>
            current_force (fst (snd (sim_write_register a v sw))) = current_force (fst sw))"
proof -
  have same: "snd (sim_read_registers a n sw) = sw \<and>
      fst (sim_read_registers a n (snd (sim_read_registers a n sw))) =
      fst (sim_read_registers a n sw)" for a n
    using assms(2) by (simp add: idle_read)
  have sync: "sim_read_registers REG_RAW_DIAMETER 1 sw = (Inr [current_diameter (fst sw)], sw) \<and>
      sim_read_registers REG_DIAMETER_OFFSET 1 sw = (Inr [current_diameter (fst sw)], sw) \<and>
      sim_read_registers REG_FORCE_APPLIED 1 sw = (Inr [current_force (fst sw)], sw)"
    if nt: "\<forall>c \<in> set calls. \<not> writes_telemetry c"
  proof -
    have "quiet (fst sw)"
      unfolding assms(1) using run_calls_quiet [OF _ nt] ThreeFG15Simulator_quiet by simp
    from quiet_idle_reads [OF this assms(2)] show ?thesis by simp
  qed
  have stored: "fst (sim_read_registers a 1 (snd (sim_write_register a v sw))) = Inr [v] \<and>
      \<not> is_busy (fst (snd (sim_write_register a v sw))) \<and>
      current_diameter (fst (snd (sim_write_register a v sw))) = current_diameter (fst sw) \<and>
      current_force (fst (snd (sim_write_register a v sw))) = current_force (fst sw)"
    if "a \<in> {REG_RAW_DIAMETER, REG_DIAMETER_OFFSET, REG_FORCE_APPLIED}" for a v
    using idle_telemetry_write_read [OF assms(2) that] by simp
  show ?thesis
  proof (intro conjI allI impI)
    fix a n
    show "snd (sim_read_registers a n sw) = sw" using same [of a n] by (rule conjunct1)
    show "fst (sim_read_registers a n (snd (sim_read_registers a n sw))) =
        fst (sim_read_registers a n sw)" using same [of a n] by (rule conjunct2)
  next
    assume nt: "\<forall>c \<in> set calls. \<not> writes_telemetry c"
    from sync [OF nt]
    show "sim_read_registers REG_RAW_DIAMETER 1 sw = (Inr [current_diameter (fst sw)], sw)"
      "sim_read_registers REG_DIAMETER_OFFSET 1 sw = (Inr [current_diameter (fst sw)], sw)"
      "sim_read_registers REG_FORCE_APPLIED 1 sw = (Inr [current_force (fst sw)], sw)"
      by simp_all
  next
    fix a v
    assume t: "a \<in> {REG_RAW_DIAMETER, REG_DIAMETER_OFFSET, REG_FORCE_APPLIED}"
    from stored [OF t, of v]
    show "fst (sim_read_registers a 1 (snd (sim_write_register a v sw))) = Inr [v]"
      "\<not> is_busy (fst (snd (sim_write_register a v sw)))"
      "current_diameter (fst (snd (sim_write_register a v sw))) = current_diameter (fst sw)"
      "current_force (fst (snd (sim_write_register a v sw))) = current_force (fst sw)"
      by simp_all
  qed
qed


lemma move_run_idle:
  "\<not> is_busy (fst (run_calls [Write REG_TARGET_DIAMETER 400, Write REG_CONTROL CMD_GRIP,
       Read REG_STATUS 1] (ThreeFG15Simulator 0 1000 500 1 False, ticking_world 1)))"
  "current_diameter (fst (run_calls [Write REG_TARGET_DIAMETER 400, Write REG_CONTROL CMD_GRIP,
       Read REG_STATUS 1] (ThreeFG15Simulator 0 1000 500 1 False, ticking_world 1))) = 400"
  by (simp_all add: sim_write_register_def update_movement_idle start_movement_def time_time_def
      Let_def update_movement_busy sim_read_registers_state publish_registers_quiet
      ThreeFG15Simulator_registers)

theorem quiet_telemetry_reads_witness:
  "\<not> is_busy (fst (run_calls [Write REG_TARGET_DIAMETER 400, Write REG_CONTROL CMD_GRIP,
       Read REG_STATUS 1] (ThreeFG15Simulator 0 1000 500 1 False, ticking_world 1))) \<and>
   fst (sim_read_registers REG_RAW_DIAMETER 1
     (run_calls [Write REG_TARGET_DIAMETER 400, Write REG_CONTROL CMD_GRIP, Read REG_STATUS 1]
        (ThreeFG15Simulator 0 1000 500 1 False, ticking_world 1))) = Inr [400] \<and>
   fst (sim_read_registers REG_FORCE_APPLIED 1 (snd (sim_write_register REG_FORCE_APPLIED 7
     (run_calls [Write REG_TARGET_DIAMETER 400, Write REG_CONTROL CMD_GRIP, Read REG_STATUS 1]
        (ThreeFG15Simulator 0 1000 500 1 False, ticking_world 1))))) = Inr [7]"
proof -
  let ?calls = "[Write REG_TARGET_DIAMETER 400, Write REG_CONTROL CMD_GRIP, Read REG_STATUS 1]"
  let ?sw = "run_calls ?calls (ThreeFG15Simulator 0 1000 500 1 False, ticking_world 1)"
  note t = quiet_telemetry_reads [where calls = ?calls and mn = 0 and mx = 1000 and fl = 500
       and sp = 1 and w = "ticking_world 1", OF refl move_run_idle(1)]
  have nt: "\<forall>c \<in> set ?calls. \<not> writes_telemetry c" by simp
  from t nt have "sim_read_registers REG_RAW_DIAMETER 1 ?sw = (Inr [current_diameter (fst ?sw)], ?sw)"
    by blast
  then have a: "fst (sim_read_registers REG_RAW_DIAMETER 1 ?sw) = Inr [400]"
    by (simp only: move_run_idle(2) fst_conv)
  have "REG_FORCE_APPLIED \<in> {REG_RAW_DIAMETER, REG_DIAMETER_OFFSET, REG_FORCE_APPLIED}" by simp
  with t have b: "fst (sim_read_registers REG_FORCE_APPLIED 1
      (snd (sim_write_register REG_FORCE_APPLIED 7 ?sw))) = Inr [7]" by blast
  from move_run_idle(1) a b show ?thesis by blast
qed

theorem telemetry_register_overwritten:
  "\<not> is_busy (fst (run_calls [Write REG_RAW_DIAMETER 42]
       (ThreeFG15Simulator 0 1000 500 1 False, ticking_world 1))) \<and>
   \<not> enable_noise (fst (run_calls [Write REG_RAW_DIAMETER 42]
       (ThreeFG15Simulator 0 1000 500 1 False, ticking_world 1))) \<and>
   fst (sim_read_registers REG_RAW_DIAMETER 1 (run_calls [Write REG_RAW_DIAMETER 42]
       (ThreeFG15Simulator 0 1000 500 1 False, ticking_world 1))) = Inr [42] \<and>
   current_diameter (fst (run_calls [Write REG_RAW_DIAMETER 42]
       (ThreeFG15Simulator 0 1000 500 1 False, ticking_world 1))) = 1000"
  by (simp add: sim_write_register_def update_movement_idle idle_read)

section \<open>Verification: the derived operations of GripperBase\<close>


lemma logged_read:
  "read_registers (logged G) reg n (g, l) =
     (fst (read_registers G reg n g), snd (read_registers G reg n g), l)"
  by (simp add: logged_def split_def)

lemma logged_write:
  "write_register (logged G) reg v (g, l) =
     (fst (write_register G reg v g), snd (write_register G reg v g), l @ [(reg, v)])"
  by (simp add: logged_def split_def)

lemma accepted_Cons:
  "accepted G ((reg, v) # ws) g =
     (fst (write_register G reg v g) = None \<and> accepted G ws (snd (write_register G reg v g)))"
  by (cases "write_register G reg v g") (auto split: option.splits)

lemma and_then_eq:
  "and_then f k g = (if fst (f g) = None then k (snd (f g)) else f g)"
  by (cases "f g") (auto simp add: and_then_def split: option.splits)

text \<open>The four writes of \<open>open_gripper\<close>, \<open>close_gripper\<close> and \<open>move_gripper\<close>.\<close>

lemma grip_writes_log:
  fixes G :: "'g gripper" and f d :: int and g :: 'g and l :: "(int \<times> int) list"
  defines "r \<equiv> and_then (set_target_force (logged G) f)
              (and_then (set_target_diameter (logged G) d)
                (and_then (set_grip_type (logged G) EXTERNAL)
                  (set_control (logged G) CMD_GRIP))) (g, l)"
  shows "snd (snd r) \<in>
           {l @ [(REG_TARGET_FORCE, f)],
            l @ [(REG_TARGET_FORCE, f), (REG_TARGET_DIAMETER, d)],
            l @ [(REG_TARGET_FORCE, f), (REG_TARGET_DIAMETER, d), (REG_GRIP_TYPE, 0)],
            l @ [(REG_TARGET_FORCE, f), (REG_TARGET_DIAMETER, d), (REG_GRIP_TYPE, 0),
                 (REG_CONTROL, CMD_GRIP)]}"
    and "accepted G [(REG_TARGET_FORCE, f), (REG_TARGET_DIAMETER, d), (REG_GRIP_TYPE, 0),
                 (REG_CONTROL, CMD_GRIP)] g \<Longrightarrow>
         fst r = None \<and>
         snd (snd r) = l @ [(REG_TARGET_FORCE, f), (REG_TARGET_DIAMETER, d), (REG_GRIP_TYPE, 0),
                 (REG_CONTROL, CMD_GRIP)]"
  unfolding r_def
  by (simp_all add: and_then_eq set_target_force_def set_target_diameter_def set_grip_type_def
      set_control_def logged_write GripType_value_def accepted_Cons del: accepted.simps(2))


lemma open_gripper_read_failed:
  assumes "\<forall>d ds. fst (read_registers G REG_MAX_DIAMETER 1 g) \<noteq> Inr (d # ds)"
  shows "snd (open_gripper (logged G) f (g, l)) = (snd (read_registers G REG_MAX_DIAMETER 1 g), l)"
  using assms
  by (cases "read_registers G REG_MAX_DIAMETER 1 g")
    (auto simp add: open_gripper_def logged_read split: sum.splits list.splits)

lemma close_gripper_read_failed:
  assumes "\<forall>d ds. fst (read_registers G REG_MIN_DIAMETER 1 g) \<noteq> Inr (d # ds)"
  shows "snd (close_gripper (logged G) f (g, l)) = (snd (read_registers G REG_MIN_DIAMETER 1 g), l)"
  using assms
  by (cases "read_registers G REG_MIN_DIAMETER 1 g")
    (auto simp add: close_gripper_def logged_read split: sum.splits list.splits)

lemma open_gripper_read_ok:
  assumes "read_registers G REG_MAX_DIAMETER 1 g = (Inr (d # ds), g1)"
  shows "open_gripper (logged G) f (g, l) =
     except_RuntimeError
       (and_then (set_target_force (logged G) f)
          (and_then (set_target_diameter (logged G) d)
            (and_then (set_grip_type (logged G) EXTERNAL)
              (set_control (logged G) CMD_GRIP))) (g1, l))"
  using assms by (simp add: open_gripper_def logged_read)

lemma close_gripper_read_ok:
  assumes "read_registers G REG_MIN_DIAMETER 1 g = (Inr (d # ds), g1)"
  shows "close_gripper (logged G) f (g, l) =
     except_RuntimeError
       (and_then (set_target_force (logged G) f)
          (and_then (set_target_diameter (logged G) d)
            (and_then (set_grip_type (logged G) EXTERNAL)
              (set_control (logged G) CMD_GRIP))) (g1, l))"
  using assms by (simp add: close_gripper_def logged_read)

text \<open>
  Claim C6.  \<open>open_gripper\<close> first reads the maximum-diameter register and
  \<open>close_gripper\<close> the minimum-diameter register.  When that read raises or returns no
  value, the operation issues no register write: the write log is as before and the
  device is in the state the read left.  When the read returns the diameter \<open>d\<close>, the
  operation issues the writes target force, target diameter \<open>d\<close>, grip type EXTERNAL (0)
  and control GRIP (1) in exactly that order; it stops early only behind a write that
  raises, and issues all four when the device accepts them.
\<close>

theorem open_close_gripper_writes:
  "(case read_registers G REG_MAX_DIAMETER 1 g of
      (Inr (d # ds), g1) \<Rightarrow>
        snd (snd (open_gripper (logged G) f (g, l))) \<in>
           {l @ [(REG_TARGET_FORCE, f)],
            l @ [(REG_TARGET_FORCE, f), (REG_TARGET_DIAMETER, d)],
            l @ [(REG_TARGET_FORCE, f), (REG_TARGET_DIAMETER, d), (REG_GRIP_TYPE, 0)],
            l @ [(REG_TARGET_FORCE, f), (REG_TARGET_DIAMETER, d), (REG_GRIP_TYPE, 0),
                 (REG_CONTROL, CMD_GRIP)]} \<and>
        (accepted G [(REG_TARGET_FORCE, f), (REG_TARGET_DIAMETER, d), (REG_GRIP_TYPE, 0),
                 (REG_CONTROL, CMD_GRIP)] g1 \<longrightarrow>
           snd (snd (open_gripper (logged G) f (g, l))) =
             l @ [(REG_TARGET_FORCE, f), (REG_TARGET_DIAMETER, d), (REG_GRIP_TYPE, 0),
                  (REG_CONTROL, CMD_GRIP)])
    | (_, g1) \<Rightarrow> snd (open_gripper (logged G) f (g, l)) = (g1, l)) \<and>
   (case read_registers G REG_MIN_DIAMETER 1 g of
      (Inr (d # ds), g1) \<Rightarrow>
        snd (snd (close_gripper (logged G) f (g, l))) \<in>
           {l @ [(REG_TARGET_FORCE, f)],
            l @ [(REG_TARGET_FORCE, f), (REG_TARGET_DIAMETER, d)],
            l @ [(REG_TARGET_FORCE, f), (REG_TARGET_DIAMETER, d), (REG_GRIP_TYPE, 0)],
            l @ [(REG_TARGET_FORCE, f), (REG_TARGET_DIAMETER, d), (REG_GRIP_TYPE, 0),
                 (REG_CONTROL, CMD_GRIP)]} \<and>
        (accepted G [(REG_TARGET_FORCE, f), (REG_TARGET_DIAMETER, d), (REG_GRIP_TYPE, 0),
                 (REG_CONTROL, CMD_GRIP)] g1 \<longrightarrow>
           snd (snd (close_gripper (logged G) f (g, l))) =
             l @ [(REG_TARGET_FORCE, f), (REG_TARGET_DIAMETER, d), (REG_GRIP_TYPE, 0),
                  (REG_CONTROL, CMD_GRIP)])
    | (_, g1) \<Rightarrow> snd (close_gripper (logged G) f (g, l)) = (g1, l))"
proof -
  have a: "snd (open_gripper (logged G) f (g, l)) = (g1, l)"
    if "read_registers G REG_MAX_DIAMETER 1 g = (r, g1)" "\<forall>d ds. r \<noteq> Inr (d # ds)" for r g1
    using open_gripper_read_failed [of G g f l] that by simp
  have b: "snd (close_gripper (logged G) f (g, l)) = (g1, l)"
    if "read_registers G REG_MIN_DIAMETER 1 g = (r, g1)" "\<forall>d ds. r \<noteq> Inr (d # ds)" for r g1
    using close_gripper_read_failed [of G g f l] that by simp
  show ?thesis
    using grip_writes_log [of G f _ _ l]
    by (auto simp add: a b open_gripper_read_ok close_gripper_read_ok
        split: prod.splits sum.splits list.splits)
qed


lemma simulator_ops [simp]:
  "read_registers simulator = sim_read_registers"
  "write_register simulator = sim_write_register"
  "open_connection simulator sw = (Inr True, sw)"
  by (simp_all add: simulator_def)

lemma unreachable_ops [simp]:
  "read_registers unreachable reg n g = (Inl RuntimeError, g)"
  "write_register unreachable reg v g = (Some RuntimeError, g)"
  "open_connection unreachable g = (Inr True, g)"
  by (simp_all add: unreachable_def)

lemma fresh_simulator_read_max:
  "sim_read_registers REG_MAX_DIAMETER 1 (ThreeFG15Simulator mn mx fl sp nz, w) =
     (Inr [mx], ThreeFG15Simulator mn mx fl sp nz, w)"
  by (simp add: idle_read ThreeFG15Simulator_registers)

lemma fresh_simulator_accepts:
  "sp \<noteq> 0 \<Longrightarrow>
   accepted simulator [(REG_TARGET_FORCE, f), (REG_TARGET_DIAMETER, d), (REG_GRIP_TYPE, 0),
      (REG_CONTROL, CMD_GRIP)] (ThreeFG15Simulator mn mx fl sp nz, w)"
  by (simp add: accepted_Cons sim_write_register_def update_movement_idle GripType_of_def
      start_movement_def time_time_def Let_def update_movement_no_exn del: accepted.simps(2))

theorem open_close_gripper_writes_witness:
  "snd (snd (open_gripper (logged simulator) 600
       ((ThreeFG15Simulator 0 1000 500 1 True, ticking_world 1), []))) =
     [(REG_TARGET_FORCE, 600), (REG_TARGET_DIAMETER, 1000), (REG_GRIP_TYPE, 0),
      (REG_CONTROL, CMD_GRIP)] \<and>
   snd (close_gripper (logged unreachable) 600 ((), [])) = ((), [])"
proof -
  have r: "read_registers simulator REG_MAX_DIAMETER 1
      (ThreeFG15Simulator 0 1000 500 1 True, ticking_world 1) =
      (Inr [1000], ThreeFG15Simulator 0 1000 500 1 True, ticking_world 1)"
    by (simp only: simulator_ops fresh_simulator_read_max)
  have a: "accepted simulator [(REG_TARGET_FORCE, 600), (REG_TARGET_DIAMETER, 1000),
      (REG_GRIP_TYPE, 0), (REG_CONTROL, CMD_GRIP)]
      (ThreeFG15Simulator 0 1000 500 1 True, ticking_world 1)"
    by (rule fresh_simulator_accepts) simp
  have "snd (snd (open_gripper (logged simulator) 600
       ((ThreeFG15Simulator 0 1000 500 1 True, ticking_world 1), []))) =
     [(REG_TARGET_FORCE, 600), (REG_TARGET_DIAMETER, 1000), (REG_GRIP_TYPE, 0),
      (REG_CONTROL, CMD_GRIP)]"
    using open_close_gripper_writes [where G = simulator
      and g = "(ThreeFG15Simulator 0 1000 500 1 True, ticking_world 1)" and f = 600 and l = "[]",
      THEN conjunct1, unfolded r] a
    by (simp del: accepted.simps(2))
  moreover have "snd (close_gripper (logged unreachable) 600 ((), [])) = ((), [])"
    using open_close_gripper_writes [where G = unreachable and g = "()" and f = 600 and l = "[]",
      THEN conjunct2]
    by simp
  ultimately show ?thesis by simp
qed

section \<open>Verification: the gateway\<close>

lemma py_index_in_range: "0 \<le> i \<Longrightarrow> i < int n \<Longrightarrow> py_index n i = Some (nat i)"
  by (simp add: py_index_def)


lemma py_get_in_range:
  "0 \<le> i \<Longrightarrow> i < int (length xs) \<Longrightarrow> py_get xs i = Inr (xs ! nat i)"
  by (simp add: py_get_def py_index_in_range)




lemma clear_cmd_fields [simp]:
  "hr_cmd_index (clear_cmd d) = hr_cmd_index d" "connected (clear_cmd d) = connected d"
  "coils (clear_cmd d) = coils d"
  by (simp_all add: clear_cmd_def SimpleDevice_set_holding_registers_def split_def
      split: sum.splits)











lemma GripperDevice_fields [simp]:
  "hrs GripperDevice = replicate 128 0" "coils GripperDevice = replicate 64 False"
  "connected GripperDevice = False" "status_coil GripperDevice = 1"
  "hr_force_index GripperDevice = 0" "hr_diameter_index GripperDevice = 1"
  "hr_griptype_index GripperDevice = 2" "hr_cmd_index GripperDevice = - 1"
  "min_d GripperDevice = None" "max_d GripperDevice = None"
  "status_grip_coil GripperDevice = 5" "status_open_coil GripperDevice = 3"
  "status_closed_coil GripperDevice = 4" "open_cmd_coil GripperDevice = 0"
  "close_cmd_coil GripperDevice = None" "move_cmd_coil GripperDevice = None"
  "flex_cmd_coil GripperDevice = None" "stop_cmd_coil GripperDevice = None"
  by (simp_all add: GripperDevice_def)









lemma get_status_unreachable: "get_status unreachable g = (Inr None, g)"
  by (simp add: get_status_def unreachable_def)



text \<open>
  A gateway that is not connected makes no status read at all: its loop skips every coil,
  and a read returns the coils as stored.
\<close>

lemma ready_coil_stored_when_disconnected:
  "fst (get_status unreachable ()) = Inr None \<and>
   fst (get_coils unreachable 1 1
     (snd (set_coils unreachable 5 1 [True] (GripperDevice, ())))) = Inr [True]"
proof -
  have sc: "snd (set_coils unreachable 5 1 [True] (GripperDevice, ())) =
      (GripperDevice\<lparr>coils := (replicate 64 False)[1 := True]\<rparr>, ())"
    by (simp add: set_coils_def coil_action_def Let_def)
  have "fst (get_coils unreachable 1 1
      (GripperDevice\<lparr>coils := (replicate 64 False)[1 := True]\<rparr>, ())) = Inr [True]"
    by (simp add: get_coils_def py_get_in_range Let_def)
  then show ?thesis by (simp only: sc get_status_unreachable fst_conv)
qed

end
